theory Spec2Isabelle
  imports Complex_Main "HOL-Library.AList" "HOL-Library.Sublist"
begin

section \<open>Python values, exceptions and tensors\<close>

text \<open>
  The model of \<^verbatim>\<open>src/model_zoo/gem_model.py\<close>. Python exceptions are values of
  \<open>error\<close>; a computation that may raise has a type \<open>error + 'a\<close>. Configuration
  dictionaries hold untyped Python values, kept here as \<open>pyval\<close>. Floating-point numbers
  are read as real numbers throughout (rounding is not modelled).
\<close>

datatype error = KeyError string | IndexError | AttributeError string | TypeError

datatype pyval = PyInt int | PyFloat real | PyStr string | PyStrs "string list"

definition bindE :: "error + 'a \<Rightarrow> ('a \<Rightarrow> error + 'b) \<Rightarrow> error + 'b" where
  "bindE m f = (case m of Inl e \<Rightarrow> Inl e | Inr x \<Rightarrow> f x)"

text \<open>\<^verbatim>\<open>d[k]\<close> on a dictionary: a missing key raises \<^verbatim>\<open>KeyError\<close>.\<close>

definition getitem :: "(string \<rightharpoonup> 'v) \<Rightarrow> string \<Rightarrow> error + 'v" where
  "getitem d k = (case d k of None \<Rightarrow> Inl (KeyError k) | Some v \<Rightarrow> Inr v)"

text \<open>\<^verbatim>\<open>d.get(k, default)\<close>.\<close>

definition get_default :: "(string \<rightharpoonup> 'v) \<Rightarrow> string \<Rightarrow> 'v \<Rightarrow> 'v" where
  "get_default d k dflt = (case d k of None \<Rightarrow> dflt | Some v \<Rightarrow> v)"

text \<open>\<^verbatim>\<open>xs[i]\<close> for a non-negative index, and \<^verbatim>\<open>xs[-1]\<close>.\<close>

definition index :: "'a list \<Rightarrow> nat \<Rightarrow> error + 'a" where
  "index xs i = (if i < length xs then Inr (xs ! i) else Inl IndexError)"

definition index_last :: "'a list \<Rightarrow> error + 'a" where
  "index_last xs = (if xs = [] then Inl IndexError else Inr (last xs))"

text \<open>\<^verbatim>\<open>range(n)\<close>: only an int is accepted; a non-positive one gives the empty range.\<close>

definition py_range :: "pyval \<Rightarrow> error + nat list" where
  "py_range v = (case v of PyInt n \<Rightarrow> Inr [0..<nat n] | _ \<Rightarrow> Inl TypeError)"

text \<open>\<^verbatim>\<open>x in c\<close> for a string \<open>x\<close>: membership in a collection of strings, substring
  test in a string, \<^verbatim>\<open>TypeError\<close> on a number.\<close>

definition py_in :: "string \<Rightarrow> pyval \<Rightarrow> error + bool" where
  "py_in x c = (case c of
      PyStrs xs \<Rightarrow> Inr (x \<in> set xs)
    | PyStr s \<Rightarrow> Inr (sublist x s)
    | _ \<Rightarrow> Inl TypeError)"

text \<open>\<^verbatim>\<open>v + k\<close> and \<^verbatim>\<open>v * k\<close> for an int literal \<open>k\<close>.\<close>

definition py_add_int :: "pyval \<Rightarrow> int \<Rightarrow> error + pyval" where
  "py_add_int v k = (case v of
      PyInt n \<Rightarrow> Inr (PyInt (n + k))
    | PyFloat x \<Rightarrow> Inr (PyFloat (x + of_int k))
    | _ \<Rightarrow> Inl TypeError)"

definition py_mul_int :: "pyval \<Rightarrow> int \<Rightarrow> pyval" where
  "py_mul_int v k = (case v of
      PyInt n \<Rightarrow> PyInt (n * k)
    | PyFloat x \<Rightarrow> PyFloat (x * of_int k)
    | PyStr s \<Rightarrow> PyStr (concat (replicate (nat k) s))
    | PyStrs xs \<Rightarrow> PyStrs (concat (replicate (nat k) xs)))"

text \<open>A tensor is its shape and its elements in row-major order, of a float or an
  integer element type.\<close>

datatype tensor =
    FloatTensor (shape: "nat list") (floats: "real list")
  | IntTensor (shape: "nat list") (ints: "int list")

text \<open>The width of a tensor is the size of its last axis.\<close>

definition has_width :: "int \<Rightarrow> tensor \<Rightarrow> bool" where
  "has_width d t = (shape t \<noteq> [] \<and> int (last (shape t)) = d)"

text \<open>A graph of the graph library: its topology and its named feature tables.\<close>

record graph =
  num_nodes :: nat
  edges :: "(nat \<times> nat) list"
  node_feat :: "string \<rightharpoonup> tensor"
  edge_feat :: "string \<rightharpoonup> tensor"

type_synonym feat = "string \<rightharpoonup> tensor"
type_synonym tag = "string \<times> nat"

section \<open>The framework\<close>

text \<open>
  The layers and operations that the source imports (paddle, pgl, and the modules
  \<^verbatim>\<open>networks.*\<close> and \<^verbatim>\<open>weighted_nt_xent\<close>, which are not part of the file) are
  parameters of the model, collected in one record. A constructor of a layer with learned
  parameters takes a \<open>tag\<close>, the attribute and position the layer is stored at, so that two
  layers built from the same arguments may still compute different functions. Each layer
  is a function of its input: dropout is taken as a fixed function.
\<close>

record framework =
  AtomEmbedding :: "tag \<Rightarrow> pyval \<Rightarrow> pyval \<Rightarrow> feat \<Rightarrow> tensor"
  BondEmbedding :: "tag \<Rightarrow> pyval \<Rightarrow> pyval \<Rightarrow> feat \<Rightarrow> tensor"
  BondFloatRBF :: "tag \<Rightarrow> pyval \<Rightarrow> pyval \<Rightarrow> feat \<Rightarrow> tensor"
  BondAngleFloatRBF :: "tag \<Rightarrow> pyval \<Rightarrow> pyval \<Rightarrow> feat \<Rightarrow> tensor"
  GIN :: "tag \<Rightarrow> pyval \<Rightarrow> graph \<Rightarrow> tensor \<Rightarrow> tensor \<Rightarrow> tensor \<times> tensor"
  LayerNorm :: "tag \<Rightarrow> pyval \<Rightarrow> tensor \<Rightarrow> tensor"
  GraphNorm :: "graph \<Rightarrow> tensor \<Rightarrow> tensor"
  ReLU :: "tensor \<Rightarrow> tensor"
  Dropout :: "pyval \<Rightarrow> tensor \<Rightarrow> tensor"
  MeanPool :: "graph \<Rightarrow> tensor \<Rightarrow> tensor"
  GraphPool :: "pyval \<Rightarrow> graph \<Rightarrow> tensor \<Rightarrow> tensor"
  tensor_add :: "tensor \<Rightarrow> tensor \<Rightarrow> tensor"
  MLP :: "tag \<Rightarrow> int \<Rightarrow> pyval \<Rightarrow> pyval \<Rightarrow> pyval \<Rightarrow> pyval \<Rightarrow> pyval \<Rightarrow> tensor \<Rightarrow> tensor"
  CrossEntropyLoss :: "tensor \<Rightarrow> tensor \<Rightarrow> real"
  BCEWithLogitsLoss :: "tensor \<Rightarrow> tensor \<Rightarrow> real"
  SmoothL1Loss :: "tensor \<Rightarrow> tensor \<Rightarrow> real"
  WeightedNTXentLoss_func :: "tensor \<Rightarrow> tensor \<Rightarrow> tensor \<Rightarrow> tensor option \<Rightarrow> real"
  gather :: "tensor \<Rightarrow> tensor \<Rightarrow> tensor"
  concat_axis1 :: "tensor list \<Rightarrow> tensor"
  normalize_axis1 :: "tensor \<Rightarrow> tensor"

section \<open>GeoGNNBlock\<close>

record GeoGNNBlock =
  embed_dim :: pyval
  last_act :: bool
  gnn :: "graph \<Rightarrow> tensor \<Rightarrow> tensor \<Rightarrow> tensor \<times> tensor"
  norm :: "tensor \<Rightarrow> tensor"
  graph_norm :: "graph \<Rightarrow> tensor \<Rightarrow> tensor"
  act :: "(tensor \<Rightarrow> tensor) option"
  dropout :: "tensor \<Rightarrow> tensor"

text \<open>\<^verbatim>\<open>GeoGNNBlock.__init__\<close>: the attribute \<open>act\<close> exists only when \<open>last_act\<close> holds.\<close>

definition GeoGNNBlock_init :: "framework \<Rightarrow> tag \<Rightarrow> pyval \<Rightarrow> pyval \<Rightarrow> bool \<Rightarrow> GeoGNNBlock" where
  "GeoGNNBlock_init fw tg embed_dim_arg dropout_rate_arg last_act_arg =
     \<lparr> embed_dim = embed_dim_arg,
       last_act = last_act_arg,
       gnn = GIN fw tg embed_dim_arg,
       norm = LayerNorm fw tg embed_dim_arg,
       graph_norm = GraphNorm fw,
       act = (if last_act_arg then Some (ReLU fw) else None),
       dropout = Dropout fw dropout_rate_arg \<rparr>"

text \<open>\<^verbatim>\<open>GeoGNNBlock.forward\<close>. Reading the attribute \<open>act\<close> of a block that has none
  raises \<^verbatim>\<open>AttributeError\<close>.\<close>

definition GeoGNNBlock_forward ::
  "framework \<Rightarrow> GeoGNNBlock \<Rightarrow> graph \<Rightarrow> tensor \<Rightarrow> tensor \<Rightarrow> error + (tensor \<times> tensor)" where
  "GeoGNNBlock_forward fw b g node_hidden edge_hidden =
     (let (node_out, edge_out) = gnn b g node_hidden edge_hidden;
          node_out = norm b node_out;
          edge_out = norm b edge_out;
          node_out = graph_norm b g node_out
      in bindE (if last_act b
                then (case act b of
                        None \<Rightarrow> Inl (AttributeError ''act'')
                      | Some a \<Rightarrow> Inr (a node_out, a edge_out))
                else Inr (node_out, edge_out))
           (\<lambda>(node_out, edge_out).
              let node_out = dropout b node_out;
                  edge_out = dropout b edge_out;
                  node_out = tensor_add fw node_out node_hidden;
                  edge_out = tensor_add fw edge_out edge_hidden
              in Inr (node_out, edge_out)))"

section \<open>GeoGNNModel\<close>

record GeoGNNModel =
  embed_dim :: pyval
  dropout_rate :: pyval
  layer_num :: pyval
  readout :: pyval
  atom_names :: pyval
  bond_names :: pyval
  bond_float_names :: pyval
  bond_angle_float_names :: pyval
  dihes_bond_float_names :: pyval
  init_atom_embedding :: "feat \<Rightarrow> tensor"
  init_bond_embedding :: "feat \<Rightarrow> tensor"
  init_bond_float_rbf :: "feat \<Rightarrow> tensor"
  init_super_edge_embedding :: "feat \<Rightarrow> tensor"
  bond_embedding_list :: "(feat \<Rightarrow> tensor) list"
  bond_float_rbf_list :: "(feat \<Rightarrow> tensor) list"
  bond_angle_float_rbf_list :: "(feat \<Rightarrow> tensor) list"
  dihes_angle_float_rbf_list :: "(feat \<Rightarrow> tensor) list"
  atom_bond_block_list :: "GeoGNNBlock list"
  bond_angle_block_list :: "GeoGNNBlock list"
  dihes_angle_list :: "GeoGNNBlock list"
  graph_pool :: "graph \<Rightarrow> tensor \<Rightarrow> tensor"

text \<open>\<^verbatim>\<open>GeoGNNModel.__init__\<close>. The four name lists are required keys; the layers of
  layer \<open>layer_id\<close> are appended in the order of \<^verbatim>\<open>range(layer_num)\<close>; the last layer's
  blocks have no activation. The \<^verbatim>\<open>print\<close> calls are left out.\<close>

definition GeoGNNModel_init :: "framework \<Rightarrow> (string \<rightharpoonup> pyval) \<Rightarrow> error + GeoGNNModel" where
  "GeoGNNModel_init fw model_config =
     (let embed_dim_v = get_default model_config ''embed_dim'' (PyInt 32);
          dropout_rate_v = get_default model_config ''dropout_rate'' (PyFloat (2 / 10));
          layer_num_v = get_default model_config ''layer_num'' (PyInt 8);
          readout_v = get_default model_config ''readout'' (PyStr ''mean'')
      in bindE (getitem model_config ''atom_names'') (\<lambda>atom_names_v.
         bindE (getitem model_config ''bond_names'') (\<lambda>bond_names_v.
         bindE (getitem model_config ''bond_float_names'') (\<lambda>bond_float_names_v.
         bindE (getitem model_config ''bond_angle_float_names'') (\<lambda>bond_angle_float_names_v.
         let dihes_v = PyStrs [''dihes_angle'']
         in bindE (py_range layer_num_v) (\<lambda>layer_ids.
         let is_last = (\<lambda>layer_id. PyInt (int layer_id + 1) = layer_num_v);
             block = (\<lambda>name layer_id.
               GeoGNNBlock_init fw (name, layer_id) embed_dim_v dropout_rate_v (\<not> is_last layer_id))
         in Inr
           \<lparr> embed_dim = embed_dim_v,
             dropout_rate = dropout_rate_v,
             layer_num = layer_num_v,
             readout = readout_v,
             atom_names = atom_names_v,
             bond_names = bond_names_v,
             bond_float_names = bond_float_names_v,
             bond_angle_float_names = bond_angle_float_names_v,
             dihes_bond_float_names = dihes_v,
             init_atom_embedding =
               AtomEmbedding fw (''init_atom_embedding'', 0) atom_names_v embed_dim_v,
             init_bond_embedding =
               BondEmbedding fw (''init_bond_embedding'', 0) bond_names_v embed_dim_v,
             init_bond_float_rbf =
               BondFloatRBF fw (''init_bond_float_rbf'', 0) bond_float_names_v embed_dim_v,
             init_super_edge_embedding =
               BondAngleFloatRBF fw (''init_super_edge_embedding'', 0)
                 bond_angle_float_names_v embed_dim_v,
             bond_embedding_list =
               map (\<lambda>layer_id. BondEmbedding fw (''bond_embedding_list'', layer_id)
                     bond_names_v embed_dim_v) layer_ids,
             bond_float_rbf_list =
               map (\<lambda>layer_id. BondFloatRBF fw (''bond_float_rbf_list'', layer_id)
                     bond_float_names_v embed_dim_v) layer_ids,
             bond_angle_float_rbf_list =
               map (\<lambda>layer_id. BondAngleFloatRBF fw (''bond_angle_float_rbf_list'', layer_id)
                     bond_angle_float_names_v embed_dim_v) layer_ids,
             dihes_angle_float_rbf_list =
               map (\<lambda>layer_id. BondAngleFloatRBF fw (''dihes_angle_float_rbf_list'', layer_id)
                     dihes_v embed_dim_v) layer_ids,
             atom_bond_block_list = map (block ''atom_bond_block_list'') layer_ids,
             bond_angle_block_list = map (block ''bond_angle_block_list'') layer_ids,
             dihes_angle_list = map (block ''dihes_angle_list'') layer_ids,
             graph_pool =
               (if readout_v = PyStr ''mean'' then MeanPool fw else GraphPool fw readout_v)
           \<rparr>))))))"

text \<open>The three lists of hidden states that \<^verbatim>\<open>GeoGNNModel.forward\<close> grows.\<close>

record hidden_lists =
  node_hidden_list :: "tensor list"
  edge_hidden_list :: "tensor list"
  super_edge_hidden_list :: "tensor list"

text \<open>The body of the loop of \<^verbatim>\<open>GeoGNNModel.forward\<close> for one \<open>layer_id\<close>.\<close>

definition forward_layer ::
  "framework \<Rightarrow> GeoGNNModel \<Rightarrow> graph \<Rightarrow> graph \<Rightarrow> graph \<Rightarrow> nat \<Rightarrow> hidden_lists
     \<Rightarrow> error + hidden_lists" where
  "forward_layer fw m atom_bond_graph bond_angle_graph dihes_angle_graph layer_id hs =
     bindE (index (bond_embedding_list m) layer_id) (\<lambda>bond_embedding.
     let cur_edge_hidden = bond_embedding (edge_feat atom_bond_graph)
     in bindE (index (bond_float_rbf_list m) layer_id) (\<lambda>bond_float_rbf.
     let cur_edge_hidden = tensor_add fw cur_edge_hidden (bond_float_rbf (edge_feat atom_bond_graph))
     in bindE (index (bond_angle_float_rbf_list m) layer_id) (\<lambda>bond_angle_float_rbf.
     let cur_angle_hidden = bond_angle_float_rbf (edge_feat bond_angle_graph)
     in bindE (index (dihes_angle_float_rbf_list m) layer_id) (\<lambda>dihes_angle_float_rbf.
     let cur_dihes_angle_hidden = dihes_angle_float_rbf (edge_feat dihes_angle_graph)
     in bindE (index (atom_bond_block_list m) layer_id) (\<lambda>atom_bond_block.
        bindE (index (node_hidden_list hs) layer_id) (\<lambda>node_in.
        bindE (index (edge_hidden_list hs) layer_id) (\<lambda>edge_in.
        bindE (GeoGNNBlock_forward fw atom_bond_block atom_bond_graph node_in edge_in)
          (\<lambda>(node_hidden, edge_hidden_1).
        bindE (index (bond_angle_block_list m) layer_id) (\<lambda>bond_angle_block.
        bindE (index (super_edge_hidden_list hs) layer_id) (\<lambda>super_edge_in.
        bindE (GeoGNNBlock_forward fw bond_angle_block bond_angle_graph
                 (tensor_add fw cur_edge_hidden edge_hidden_1) super_edge_in)
          (\<lambda>(edge_hidden, dihes_node_hidden_1).
        bindE (index (dihes_angle_list m) layer_id) (\<lambda>dihes_angle_block.
        bindE (GeoGNNBlock_forward fw dihes_angle_block dihes_angle_graph
                 (tensor_add fw cur_angle_hidden dihes_node_hidden_1) cur_dihes_angle_hidden)
          (\<lambda>(dihes_node_hidden, _).
        Inr \<lparr> node_hidden_list = node_hidden_list hs @ [node_hidden],
              edge_hidden_list = edge_hidden_list hs @ [edge_hidden],
              super_edge_hidden_list = super_edge_hidden_list hs @ [dihes_node_hidden] \<rparr>
        )))))))))))))"

text \<open>The loop \<^verbatim>\<open>for layer_id in range(self.layer_num)\<close>.\<close>

fun forward_layers ::
  "framework \<Rightarrow> GeoGNNModel \<Rightarrow> graph \<Rightarrow> graph \<Rightarrow> graph \<Rightarrow> nat list \<Rightarrow> hidden_lists
     \<Rightarrow> error + hidden_lists" where
  "forward_layers fw m g1 g2 g3 [] hs = Inr hs"
| "forward_layers fw m g1 g2 g3 (layer_id # layer_ids) hs =
     bindE (forward_layer fw m g1 g2 g3 layer_id hs) (forward_layers fw m g1 g2 g3 layer_ids)"

text \<open>\<^verbatim>\<open>GeoGNNModel.forward\<close>, returning \<open>(node_repr, edge_repr, graph_repr)\<close>.\<close>

definition GeoGNNModel_forward ::
  "framework \<Rightarrow> GeoGNNModel \<Rightarrow> graph \<Rightarrow> graph \<Rightarrow> graph \<Rightarrow> error + (tensor \<times> tensor \<times> tensor)" where
  "GeoGNNModel_forward fw m atom_bond_graph bond_angle_graph dihes_angle_graph =
     (let node_hidden = init_atom_embedding m (node_feat atom_bond_graph);
          bond_embed = init_bond_embedding m (edge_feat atom_bond_graph);
          edge_hidden = tensor_add fw bond_embed (init_bond_float_rbf m (edge_feat atom_bond_graph));
          super_edge_hidden = init_super_edge_embedding m (edge_feat bond_angle_graph);
          hs = \<lparr> node_hidden_list = [node_hidden],
                 edge_hidden_list = [edge_hidden],
                 super_edge_hidden_list = [super_edge_hidden] \<rparr>
      in bindE (py_range (layer_num m)) (\<lambda>layer_ids.
         bindE (forward_layers fw m atom_bond_graph bond_angle_graph dihes_angle_graph layer_ids hs)
           (\<lambda>hs.
         bindE (index_last (edge_hidden_list hs)) (\<lambda>edge_repr.
         bindE (index_last (node_hidden_list hs)) (\<lambda>node_repr.
         let graph_repr = graph_pool m atom_bond_graph node_repr
         in Inr (node_repr, edge_repr, graph_repr))))))"

section \<open>GeoPredModel\<close>

text \<open>
  The attributes of one pretraining task are set together, under the test of that task's
  tag, so each task's head is one optional group of fields: \<open>None\<close> when the attributes were
  never set. \<open>Fg_linear\<close> and \<open>Fg_loss\<close> are set outside any test.
\<close>

record Cm_head =
  Cm_vocab :: pyval
  Cm_linear :: "tensor \<Rightarrow> tensor"
  Cm_loss :: "tensor \<Rightarrow> tensor \<Rightarrow> real"

record Bar_head =
  Bar_vocab :: pyval
  Bar_mlp_1 :: "tensor \<Rightarrow> tensor"
  Bar_mlp_2 :: "tensor \<Rightarrow> tensor"
  Bar_loss :: "tensor \<Rightarrow> tensor \<Rightarrow> real"

record Dar_head =
  Dar_vocab :: pyval
  Dar_mlp1 :: "tensor \<Rightarrow> tensor"
  Dar_loss :: "tensor \<Rightarrow> tensor \<Rightarrow> real"
  Dar_mlp2 :: "tensor \<Rightarrow> tensor"
  Dar_loss_extra :: "tensor \<Rightarrow> tensor \<Rightarrow> real"

record Blr_head =
  Blr_vocab :: pyval
  Blr_mlp :: "tensor \<Rightarrow> tensor"
  Blr_loss :: "tensor \<Rightarrow> tensor \<Rightarrow> real"

record Adc_head =
  Adc_vocab :: pyval
  Adc_mlp :: "tensor \<Rightarrow> tensor"
  Adc_loss :: "tensor \<Rightarrow> tensor \<Rightarrow> real"

record Cl_head =
  Cl_vocab :: pyval
  Cl_linear :: "tensor \<Rightarrow> tensor"
  Cl_loss :: "tensor \<Rightarrow> tensor \<Rightarrow> real"

record GeoPredModel =
  compound_encoder :: GeoGNNModel
  hidden_size :: pyval
  dropout_rate :: pyval
  act :: pyval
  pretrain_tasks :: pyval
  coefs :: "real list"
  Cm :: "Cm_head option"
  Fg_linear :: "tensor \<Rightarrow> tensor"
  Fg_loss :: "tensor \<Rightarrow> tensor \<Rightarrow> real"
  Bar :: "Bar_head option"
  Dar :: "Dar_head option"
  Blr :: "Blr_head option"
  Adc :: "Adc_head option"
  Cl :: "Cl_head option"

text \<open>The statement \<^verbatim>\<open>if tag in self.pretrain_tasks: <build the head>\<close> of the
  constructor.\<close>

definition when_task :: "string \<Rightarrow> pyval \<Rightarrow> (error + 'h) \<Rightarrow> error + 'h option" where
  "when_task tg tasks build =
     bindE (py_in tg tasks) (\<lambda>b.
       if b then bindE build (\<lambda>h. Inr (Some h)) else Inr None)"

text \<open>\<^verbatim>\<open>GeoPredModel.__init__\<close>. The coefficient tensor has eight zeros. The \<^verbatim>\<open>print\<close>
  call is left out.\<close>

definition GeoPredModel_init ::
  "framework \<Rightarrow> (string \<rightharpoonup> pyval) \<Rightarrow> GeoGNNModel \<Rightarrow> error + GeoPredModel" where
  "GeoPredModel_init fw model_config encoder =
     bindE (getitem model_config ''hidden_size'') (\<lambda>hidden.
     bindE (getitem model_config ''dropout_rate'') (\<lambda>drop.
     bindE (getitem model_config ''act'') (\<lambda>actv.
     bindE (getitem model_config ''pretrain_tasks'') (\<lambda>tasks.
     let x = replicate 8 (0::real);
         dim = GeoGNNModel.embed_dim encoder
     in
     bindE (when_task ''Cm'' tasks
       (bindE (getitem model_config ''Cm_vocab'') (\<lambda>vocab.
        bindE (py_add_int vocab 2) (\<lambda>out_size.
        Inr \<lparr> Cm_vocab = vocab,
              Cm_linear = MLP fw (''Cm_linear'', 0) 2 hidden actv dim out_size drop,
              Cm_loss = CrossEntropyLoss fw \<rparr>)))) (\<lambda>Cm_v.
     bindE (getitem model_config ''Fg_size'') (\<lambda>Fg_size.
     let Fg_linear_v = MLP fw (''Fg_linear'', 0) 2 hidden actv dim Fg_size drop;
         Fg_loss_v = BCEWithLogitsLoss fw
     in
     bindE (when_task ''Bar'' tasks
       (bindE (getitem model_config ''Bar_vocab'') (\<lambda>vocab.
        let mlp_1 = MLP fw (''Bar_mlp_1'', 0) 2 hidden actv (py_mul_int dim 2) dim drop
        in bindE (py_add_int vocab 2) (\<lambda>out_size.
        Inr \<lparr> Bar_vocab = vocab,
              Bar_mlp_1 = mlp_1,
              Bar_mlp_2 = MLP fw (''Bar_mlp_2'', 0) 2 hidden actv (py_mul_int dim 2) out_size drop,
              Bar_loss = CrossEntropyLoss fw \<rparr>)))) (\<lambda>Bar_v.
     bindE (when_task ''Dar'' tasks
       (bindE (getitem model_config ''Dar_vocab'') (\<lambda>vocab.
        let mlp1 = MLP fw (''Dar_mlp1'', 0) 2 hidden actv (py_mul_int dim 3) dim drop
        in bindE (py_add_int vocab 2) (\<lambda>out_size.
        Inr \<lparr> Dar_vocab = vocab,
              Dar_mlp1 = mlp1,
              Dar_loss = CrossEntropyLoss fw,
              Dar_mlp2 = MLP fw (''Dar_mlp2'', 0) 2 hidden actv (py_mul_int dim 2) out_size drop,
              Dar_loss_extra = CrossEntropyLoss fw \<rparr>)))) (\<lambda>Dar_v.
     bindE (when_task ''Blr'' tasks
       (bindE (getitem model_config ''Blr_vocab'') (\<lambda>vocab.
        Inr \<lparr> Blr_vocab = vocab,
              Blr_mlp = MLP fw (''Blr_mlp'', 0) 2 hidden actv (py_mul_int dim 2) (PyInt 1) drop,
              Blr_loss = SmoothL1Loss fw \<rparr>))) (\<lambda>Blr_v.
     bindE (when_task ''Adc'' tasks
       (bindE (getitem model_config ''Adc_vocab'') (\<lambda>vocab.
        Inr \<lparr> Adc_vocab = vocab,
              Adc_mlp = MLP fw (''Adc_mlp'', 0) 2 hidden actv (py_mul_int dim 2) (PyInt 1) drop,
              Adc_loss = SmoothL1Loss fw \<rparr>))) (\<lambda>Adc_v.
     bindE (when_task ''Cl'' tasks
       (bindE (getitem model_config ''Cl_vocab'') (\<lambda>vocab.
        Inr \<lparr> Cl_vocab = vocab,
              Cl_linear = MLP fw (''Cl_linear'', 0) 2 hidden actv dim (PyInt 1) drop,
              Cl_loss = SmoothL1Loss fw \<rparr>))) (\<lambda>Cl_v.
     Inr \<lparr> compound_encoder = encoder,
           hidden_size = hidden,
           dropout_rate = drop,
           act = actv,
           pretrain_tasks = tasks,
           coefs = x,
           Cm = Cm_v,
           Fg_linear = Fg_linear_v,
           Fg_loss = Fg_loss_v,
           Bar = Bar_v,
           Dar = Dar_v,
           Blr = Blr_v,
           Adc = Adc_v,
           Cl = Cl_v \<rparr>)))))))))))"

subsection \<open>The loss of each task\<close>

text \<open>Reading the attributes of a head that was never built raises
  \<^verbatim>\<open>AttributeError\<close>.\<close>

definition attr :: "string \<Rightarrow> 'h option \<Rightarrow> error + 'h" where
  "attr name h = (case h of None \<Rightarrow> Inl (AttributeError name) | Some x \<Rightarrow> Inr x)"

definition get_Cm_loss ::
  "framework \<Rightarrow> GeoPredModel \<Rightarrow> tensor \<Rightarrow> tensor \<Rightarrow> tensor \<Rightarrow> error + real" where
  "get_Cm_loss fw m Cm_node_i Cm_context_id node_repr =
     (let masked_node_repr = gather fw node_repr Cm_node_i
      in bindE (attr ''Cm_linear'' (Cm m)) (\<lambda>h.
         let logits = Cm_linear h masked_node_repr
         in Inr (Cm_loss h logits Cm_context_id)))"

definition get_Fg_loss ::
  "framework \<Rightarrow> GeoPredModel \<Rightarrow> feat \<Rightarrow> tensor \<Rightarrow> error + real" where
  "get_Fg_loss fw m feed_dict graph_repr =
     bindE (getitem feed_dict ''Fg_morgan'') (\<lambda>morgan.
     bindE (getitem feed_dict ''Fg_daylight'') (\<lambda>daylight.
     bindE (getitem feed_dict ''Fg_maccs'') (\<lambda>maccs.
     let fg_label = concat_axis1 fw [morgan, daylight, maccs];
         logits = Fg_linear m graph_repr
     in Inr (Fg_loss m logits fg_label))))"

text \<open>The elementwise arithmetic of \<^verbatim>\<open>angle / np.pi * vocab\<close> and the cast to
  \<^verbatim>\<open>int64\<close>, which drops the fractional part (rounds toward zero).\<close>

definition elems :: "tensor \<Rightarrow> real list" where
  "elems t = (case t of FloatTensor s xs \<Rightarrow> xs | IntTensor s ks \<Rightarrow> map of_int ks)"

definition tensor_div :: "tensor \<Rightarrow> real \<Rightarrow> tensor" where
  "tensor_div t c = FloatTensor (shape t) (map (\<lambda>x. x / c) (elems t))"

definition tensor_mul_py :: "tensor \<Rightarrow> pyval \<Rightarrow> error + tensor" where
  "tensor_mul_py t v = (case v of
      PyInt n \<Rightarrow> Inr (FloatTensor (shape t) (map (\<lambda>x. x * of_int n) (elems t)))
    | PyFloat c \<Rightarrow> Inr (FloatTensor (shape t) (map (\<lambda>x. x * c) (elems t)))
    | _ \<Rightarrow> Inl TypeError)"

definition trunc :: "real \<Rightarrow> int" where
  "trunc x = (if 0 \<le> x then \<lfloor>x\<rfloor> else \<lceil>x\<rceil>)"

definition cast_int64 :: "tensor \<Rightarrow> tensor" where
  "cast_int64 t = (case t of
      FloatTensor s xs \<Rightarrow> IntTensor s (map trunc xs)
    | IntTensor s ks \<Rightarrow> IntTensor s ks)"

text \<open>\<^verbatim>\<open>paddle.cast(angle / np.pi * vocab, 'int64')\<close>, the bin ids of the Bar and Dar
  losses.\<close>

definition dist_id :: "tensor \<Rightarrow> pyval \<Rightarrow> error + tensor" where
  "dist_id angle vocab =
     bindE (tensor_mul_py (tensor_div angle pi) vocab) (\<lambda>t. Inr (cast_int64 t))"

definition get_Bar_loss ::
  "framework \<Rightarrow> GeoPredModel \<Rightarrow> tensor \<Rightarrow> tensor \<Rightarrow> tensor \<Rightarrow> tensor \<Rightarrow> tensor \<Rightarrow> error + real" where
  "get_Bar_loss fw m Ba_node_i Ba_node_j Ba_node_k Ba_bond_angle node_repr =
     (let node_i_repr = gather fw node_repr Ba_node_i;
          node_j_repr = gather fw node_repr Ba_node_j;
          node_k_repr = gather fw node_repr Ba_node_k;
          node_ij_repr = concat_axis1 fw [node_i_repr, node_j_repr]
      in bindE (attr ''Bar_mlp_1'' (Bar m)) (\<lambda>h.
         let node_ij_repr = Bar_mlp_1 h node_ij_repr;
             node_jk_repr = concat_axis1 fw [node_j_repr, node_k_repr];
             node_jk_repr = Bar_mlp_1 h node_jk_repr;
             pred = Bar_mlp_2 h (concat_axis1 fw [node_ij_repr, node_jk_repr])
         in bindE (dist_id Ba_bond_angle (Bar_vocab h)) (\<lambda>Bar_dist_id.
            Inr (Bar_loss h pred Bar_dist_id))))"

definition get_Dar_loss ::
  "framework \<Rightarrow> GeoPredModel \<Rightarrow> tensor \<Rightarrow> tensor \<Rightarrow> tensor \<Rightarrow> tensor \<Rightarrow> tensor
     \<Rightarrow> tensor \<Rightarrow> tensor \<Rightarrow> tensor \<Rightarrow> tensor \<Rightarrow> tensor \<Rightarrow> tensor \<Rightarrow> error + real" where
  "get_Dar_loss fw m Da_node_i Da_node_j Da_node_k Da_node_l Da_bond_angle Da_node_i_extra
       Da_node_j_extra Da_node_k_extra Da_node_l_extra Da_bond_angle_extra node_repr =
     (let node_i_repr = gather fw node_repr Da_node_i;
          node_j_repr = gather fw node_repr Da_node_j;
          node_k_repr = gather fw node_repr Da_node_k;
          node_l_repr = gather fw node_repr Da_node_l;
          node_ijk_repr = concat_axis1 fw [node_i_repr, node_j_repr, node_k_repr];
          node_jkl_repr = concat_axis1 fw [node_j_repr, node_k_repr, node_l_repr]
      in bindE (attr ''Dar_mlp1'' (Dar m)) (\<lambda>h.
         let node_ijk_repr = Dar_mlp1 h node_ijk_repr;
             node_jkl_repr = Dar_mlp1 h node_jkl_repr;
             pred = Dar_mlp2 h (concat_axis1 fw [node_ijk_repr, node_jkl_repr])
         in bindE (dist_id Da_bond_angle (Dar_vocab h)) (\<lambda>Dar_dist_id.
         let loss = Dar_loss h pred Dar_dist_id;
             node_i_repr_extra = gather fw node_repr Da_node_i_extra;
             node_j_repr_extra = gather fw node_repr Da_node_j_extra;
             node_k_repr_extra = gather fw node_repr Da_node_k_extra;
             node_l_repr_extra = gather fw node_repr Da_node_l_extra;
             node_ijk_repr_extra =
               concat_axis1 fw [node_i_repr_extra, node_j_repr_extra, node_k_repr_extra];
             node_kjl_repr_extra =
               concat_axis1 fw [node_k_repr_extra, node_j_repr_extra, node_l_repr_extra];
             node_ijk_repr_extra = Dar_mlp1 h node_ijk_repr_extra;
             node_kjl_repr_extra = Dar_mlp1 h node_kjl_repr_extra;
             pred_extra = Dar_mlp2 h (concat_axis1 fw [node_ijk_repr_extra, node_kjl_repr_extra])
         in bindE (dist_id Da_bond_angle_extra (Dar_vocab h)) (\<lambda>Dar_dist_id_extra.
         let loss_extra = Dar_loss_extra h pred_extra Dar_dist_id_extra
         in Inr (loss + loss_extra)))))"

definition get_Blr_loss ::
  "framework \<Rightarrow> GeoPredModel \<Rightarrow> tensor \<Rightarrow> tensor \<Rightarrow> tensor \<Rightarrow> tensor \<Rightarrow> error + real" where
  "get_Blr_loss fw m Bl_node_i Bl_node_j Bl_bond_length node_repr =
     (let node_i_repr = gather fw node_repr Bl_node_i;
          node_j_repr = gather fw node_repr Bl_node_j;
          node_ij_repr = concat_axis1 fw [node_i_repr, node_j_repr]
      in bindE (attr ''Blr_mlp'' (Blr m)) (\<lambda>h.
         let pred = Blr_mlp h node_ij_repr
         in Inr (Blr_loss h pred Bl_bond_length)))"

definition get_Adc_loss ::
  "framework \<Rightarrow> GeoPredModel \<Rightarrow> tensor \<Rightarrow> tensor \<Rightarrow> tensor \<Rightarrow> tensor \<Rightarrow> error + real" where
  "get_Adc_loss fw m Ad_node_i Ad_node_j Ad_atom_dist node_repr =
     (let node_i_repr = gather fw node_repr Ad_node_i;
          node_j_repr = gather fw node_repr Ad_node_j;
          node_ij_repr = concat_axis1 fw [node_i_repr, node_j_repr]
      in bindE (attr ''Adc_mlp'' (Adc m)) (\<lambda>h.
         let logits = Adc_mlp h node_ij_repr
         in Inr (Adc_loss h logits Ad_atom_dist)))"

definition get_Cl_loss ::
  "framework \<Rightarrow> GeoPredModel \<Rightarrow> tensor \<Rightarrow> tensor \<Rightarrow> tensor \<Rightarrow> tensor option \<Rightarrow> real" where
  "get_Cl_loss fw m x1 x2 mols rms = WeightedNTXentLoss_func fw x1 x2 mols rms"

subsection \<open>GeoPredModel.forward\<close>

text \<open>The encoder returns \<open>(node_repr, edge_repr, graph_repr)\<close>.\<close>

type_synonym reprs = "tensor \<times> tensor \<times> tensor"

definition node_of :: "reprs \<Rightarrow> tensor" where
  "node_of r = fst r"

definition graph_of :: "reprs \<Rightarrow> tensor" where
  "graph_of r = snd (snd r)"

text \<open>The four representation triples of one forward call: of the canonical graphs, of
  the second conformer (\<^verbatim>\<open>_conf_cl_1\<close>), and of the masked version of each.\<close>

record views =
  canonical :: reprs
  conf_cl_1 :: reprs
  masked :: reprs
  masked_conf_cl_1 :: reprs

text \<open>One statement \<^verbatim>\<open>self.compound_encoder.forward(graph_dict[k1], graph_dict[k2],
  graph_dict[k3])\<close>. The list \<open>calls\<close> records the arguments of every invocation of the
  encoder so far.\<close>

definition encoder_call ::
  "framework \<Rightarrow> GeoPredModel \<Rightarrow> (string \<rightharpoonup> graph) \<Rightarrow> string \<Rightarrow> string \<Rightarrow> string
     \<Rightarrow> (graph \<times> graph \<times> graph) list \<Rightarrow> error + (reprs \<times> (graph \<times> graph \<times> graph) list)" where
  "encoder_call fw m graph_dict k1 k2 k3 calls =
     bindE (getitem graph_dict k1) (\<lambda>g1.
     bindE (getitem graph_dict k2) (\<lambda>g2.
     bindE (getitem graph_dict k3) (\<lambda>g3.
     bindE (GeoGNNModel_forward fw (compound_encoder m) g1 g2 g3) (\<lambda>r.
     Inr (r, calls @ [(g1, g2, g3)])))))"

text \<open>The first four statements of \<^verbatim>\<open>GeoPredModel.forward\<close>.\<close>

definition encode_views ::
  "framework \<Rightarrow> GeoPredModel \<Rightarrow> (string \<rightharpoonup> graph)
     \<Rightarrow> error + (views \<times> (graph \<times> graph \<times> graph) list)" where
  "encode_views fw m graph_dict =
     bindE (encoder_call fw m graph_dict ''atom_bond_graph'' ''bond_angle_graph''
              ''dihes_angle_graph'' []) (\<lambda>(r, calls).
     bindE (encoder_call fw m graph_dict ''atom_bond_graph_conf_cl_1''
              ''bond_angle_graph_conf_cl_1'' ''dihes_angle_graph_conf_cl_1'' calls)
       (\<lambda>(r_conf_cl_1, calls).
     bindE (encoder_call fw m graph_dict ''masked_atom_bond_graph''
              ''masked_bond_angle_graph'' ''masked_dihes_angle_graph'' calls)
       (\<lambda>(masked_r, calls).
     bindE (encoder_call fw m graph_dict ''masked_atom_bond_graph_conf_cl_1''
              ''masked_bond_angle_graph_conf_cl_1'' ''masked_dihes_angle_graph_conf_cl_1'' calls)
       (\<lambda>(masked_r_conf_cl_1, calls).
     Inr (\<lparr> canonical = r, conf_cl_1 = r_conf_cl_1, masked = masked_r,
             masked_conf_cl_1 = masked_r_conf_cl_1 \<rparr>, calls)))))"

text \<open>One call of a task's loss with the entries of \<open>feed_dict\<close> it is given, looked up
  in the order of the arguments; \<open>sfx\<close> is empty or \<^verbatim>\<open>_conf_cl_1\<close>.\<close>

definition Cm_call :: "framework \<Rightarrow> GeoPredModel \<Rightarrow> feat \<Rightarrow> string \<Rightarrow> tensor \<Rightarrow> error + real" where
  "Cm_call fw m feed_dict sfx node_repr =
     bindE (getitem feed_dict (''Cm_node_i'' @ sfx)) (\<lambda>node_i.
     bindE (getitem feed_dict (''Cm_context_id'' @ sfx)) (\<lambda>context_id.
     get_Cm_loss fw m node_i context_id node_repr))"

definition Bar_call :: "framework \<Rightarrow> GeoPredModel \<Rightarrow> feat \<Rightarrow> string \<Rightarrow> tensor \<Rightarrow> error + real" where
  "Bar_call fw m feed_dict sfx node_repr =
     bindE (getitem feed_dict (''Ba_node_i'' @ sfx)) (\<lambda>node_i.
     bindE (getitem feed_dict (''Ba_node_j'' @ sfx)) (\<lambda>node_j.
     bindE (getitem feed_dict (''Ba_node_k'' @ sfx)) (\<lambda>node_k.
     bindE (getitem feed_dict (''Ba_bond_angle'' @ sfx)) (\<lambda>bond_angle.
     get_Bar_loss fw m node_i node_j node_k bond_angle node_repr))))"

definition Dar_call :: "framework \<Rightarrow> GeoPredModel \<Rightarrow> feat \<Rightarrow> string \<Rightarrow> tensor \<Rightarrow> error + real" where
  "Dar_call fw m feed_dict sfx node_repr =
     bindE (getitem feed_dict (''Da_node_i'' @ sfx)) (\<lambda>node_i.
     bindE (getitem feed_dict (''Da_node_j'' @ sfx)) (\<lambda>node_j.
     bindE (getitem feed_dict (''Da_node_k'' @ sfx)) (\<lambda>node_k.
     bindE (getitem feed_dict (''Da_node_l'' @ sfx)) (\<lambda>node_l.
     bindE (getitem feed_dict (''Da_bond_angle'' @ sfx)) (\<lambda>bond_angle.
     bindE (getitem feed_dict (''Da_node_i_extra'' @ sfx)) (\<lambda>node_i_extra.
     bindE (getitem feed_dict (''Da_node_j_extra'' @ sfx)) (\<lambda>node_j_extra.
     bindE (getitem feed_dict (''Da_node_k_extra'' @ sfx)) (\<lambda>node_k_extra.
     bindE (getitem feed_dict (''Da_node_l_extra'' @ sfx)) (\<lambda>node_l_extra.
     bindE (getitem feed_dict (''Da_bond_angle_extra'' @ sfx)) (\<lambda>bond_angle_extra.
     get_Dar_loss fw m node_i node_j node_k node_l bond_angle node_i_extra node_j_extra
       node_k_extra node_l_extra bond_angle_extra node_repr))))))))))"

definition Blr_call :: "framework \<Rightarrow> GeoPredModel \<Rightarrow> feat \<Rightarrow> string \<Rightarrow> tensor \<Rightarrow> error + real" where
  "Blr_call fw m feed_dict sfx node_repr =
     bindE (getitem feed_dict (''Bl_node_i'' @ sfx)) (\<lambda>node_i.
     bindE (getitem feed_dict (''Bl_node_j'' @ sfx)) (\<lambda>node_j.
     bindE (getitem feed_dict (''Bl_bond_length'' @ sfx)) (\<lambda>bond_length.
     get_Blr_loss fw m node_i node_j bond_length node_repr)))"

definition Adc_call :: "framework \<Rightarrow> GeoPredModel \<Rightarrow> feat \<Rightarrow> string \<Rightarrow> tensor \<Rightarrow> error + real" where
  "Adc_call fw m feed_dict sfx node_repr =
     bindE (getitem feed_dict (''Ad_node_i'' @ sfx)) (\<lambda>node_i.
     bindE (getitem feed_dict (''Ad_node_j'' @ sfx)) (\<lambda>node_j.
     bindE (getitem feed_dict (''Ad_atom_dist'' @ sfx)) (\<lambda>atom_dist.
     get_Adc_loss fw m node_i node_j atom_dist node_repr)))"

definition Cl_call ::
  "framework \<Rightarrow> GeoPredModel \<Rightarrow> feat \<Rightarrow> tensor \<Rightarrow> tensor \<Rightarrow> error + real" where
  "Cl_call fw m feed_dict graph_repr_1 graph_repr_2 =
     (let x1 = normalize_axis1 fw graph_repr_1;
          x2 = normalize_axis1 fw graph_repr_2
      in bindE (getitem feed_dict ''fp_score'') (\<lambda>fp_score.
         bindE (getitem feed_dict ''rms'') (\<lambda>rms.
         Inr (get_Cl_loss fw m x1 x2 fp_score (Some rms)))))"

text \<open>\<^verbatim>\<open>d[k] = a; d[k] += b; d[k] += c; d[k] += e\<close>: the four values are computed in
  this order and added from the left.\<close>

definition sum4 :: "error + real \<Rightarrow> error + real \<Rightarrow> error + real \<Rightarrow> error + real \<Rightarrow> error + real" where
  "sum4 a b c e =
     bindE a (\<lambda>l1. bindE b (\<lambda>l2. bindE c (\<lambda>l3. bindE e (\<lambda>l4. Inr (l1 + l2 + l3 + l4)))))"

definition Cm_sub_loss :: "framework \<Rightarrow> GeoPredModel \<Rightarrow> feat \<Rightarrow> views \<Rightarrow> error + real" where
  "Cm_sub_loss fw m feed_dict v =
     sum4 (Cm_call fw m feed_dict [] (node_of (canonical v)))
          (Cm_call fw m feed_dict [] (node_of (masked v)))
          (Cm_call fw m feed_dict ''_conf_cl_1'' (node_of (conf_cl_1 v)))
          (Cm_call fw m feed_dict ''_conf_cl_1'' (node_of (masked_conf_cl_1 v)))"

definition Fg_sub_loss :: "framework \<Rightarrow> GeoPredModel \<Rightarrow> feat \<Rightarrow> views \<Rightarrow> error + real" where
  "Fg_sub_loss fw m feed_dict v =
     sum4 (get_Fg_loss fw m feed_dict (graph_of (canonical v)))
          (get_Fg_loss fw m feed_dict (graph_of (masked v)))
          (get_Fg_loss fw m feed_dict (graph_of (conf_cl_1 v)))
          (get_Fg_loss fw m feed_dict (graph_of (masked_conf_cl_1 v)))"

definition Bar_sub_loss :: "framework \<Rightarrow> GeoPredModel \<Rightarrow> feat \<Rightarrow> views \<Rightarrow> error + real" where
  "Bar_sub_loss fw m feed_dict v =
     sum4 (Bar_call fw m feed_dict [] (node_of (canonical v)))
          (Bar_call fw m feed_dict [] (node_of (masked v)))
          (Bar_call fw m feed_dict ''_conf_cl_1'' (node_of (conf_cl_1 v)))
          (Bar_call fw m feed_dict ''_conf_cl_1'' (node_of (masked_conf_cl_1 v)))"

definition Dar_sub_loss :: "framework \<Rightarrow> GeoPredModel \<Rightarrow> feat \<Rightarrow> views \<Rightarrow> error + real" where
  "Dar_sub_loss fw m feed_dict v =
     sum4 (Dar_call fw m feed_dict [] (node_of (canonical v)))
          (Dar_call fw m feed_dict [] (node_of (masked v)))
          (Dar_call fw m feed_dict ''_conf_cl_1'' (node_of (conf_cl_1 v)))
          (Dar_call fw m feed_dict ''_conf_cl_1'' (node_of (masked_conf_cl_1 v)))"

definition Blr_sub_loss :: "framework \<Rightarrow> GeoPredModel \<Rightarrow> feat \<Rightarrow> views \<Rightarrow> error + real" where
  "Blr_sub_loss fw m feed_dict v =
     sum4 (Blr_call fw m feed_dict [] (node_of (canonical v)))
          (Blr_call fw m feed_dict [] (node_of (masked v)))
          (Blr_call fw m feed_dict ''_conf_cl_1'' (node_of (conf_cl_1 v)))
          (Blr_call fw m feed_dict ''_conf_cl_1'' (node_of (masked_conf_cl_1 v)))"

definition Adc_sub_loss :: "framework \<Rightarrow> GeoPredModel \<Rightarrow> feat \<Rightarrow> views \<Rightarrow> error + real" where
  "Adc_sub_loss fw m feed_dict v =
     sum4 (Adc_call fw m feed_dict [] (node_of (canonical v)))
          (Adc_call fw m feed_dict [] (node_of (masked v)))
          (Adc_call fw m feed_dict ''_conf_cl_1'' (node_of (conf_cl_1 v)))
          (Adc_call fw m feed_dict ''_conf_cl_1'' (node_of (masked_conf_cl_1 v)))"

definition Cl_sub_loss :: "framework \<Rightarrow> GeoPredModel \<Rightarrow> feat \<Rightarrow> views \<Rightarrow> error + real" where
  "Cl_sub_loss fw m feed_dict v =
     bindE (Cl_call fw m feed_dict (graph_of (conf_cl_1 v)) (graph_of (masked v))) (\<lambda>l1.
     bindE (Cl_call fw m feed_dict (graph_of (canonical v)) (graph_of (masked_conf_cl_1 v)))
       (\<lambda>l2.
     Inr (l1 + l2)))"

text \<open>\<open>sub_losses\<close> is a dictionary in insertion order: an association list, where
  \<^verbatim>\<open>sub_losses[k] = v\<close> replaces the entry of \<open>k\<close> or appends a new one. One statement
  \<^verbatim>\<open>if tag in self.pretrain_tasks: sub_losses[tag + '_loss'] = ...\<close>:\<close>

definition task_step ::
  "string \<Rightarrow> GeoPredModel \<Rightarrow> error + real \<Rightarrow> (string \<times> real) list
     \<Rightarrow> error + (string \<times> real) list" where
  "task_step tg m sub_loss sub_losses =
     bindE (py_in tg (pretrain_tasks m)) (\<lambda>b.
       if b then bindE sub_loss (\<lambda>l. Inr (AList.update (tg @ ''_loss'') l sub_losses))
       else Inr sub_losses)"

definition compute_sub_losses ::
  "framework \<Rightarrow> GeoPredModel \<Rightarrow> feat \<Rightarrow> views \<Rightarrow> error + (string \<times> real) list" where
  "compute_sub_losses fw m feed_dict v =
     bindE (task_step ''Cm'' m (Cm_sub_loss fw m feed_dict v) []) (\<lambda>sub_losses.
     bindE (task_step ''Fg'' m (Fg_sub_loss fw m feed_dict v) sub_losses) (\<lambda>sub_losses.
     bindE (task_step ''Bar'' m (Bar_sub_loss fw m feed_dict v) sub_losses) (\<lambda>sub_losses.
     bindE (task_step ''Dar'' m (Dar_sub_loss fw m feed_dict v) sub_losses) (\<lambda>sub_losses.
     bindE (task_step ''Blr'' m (Blr_sub_loss fw m feed_dict v) sub_losses) (\<lambda>sub_losses.
     bindE (task_step ''Adc'' m (Adc_sub_loss fw m feed_dict v) sub_losses) (\<lambda>sub_losses.
     task_step ''Cl'' m (Cl_sub_loss fw m feed_dict v) sub_losses))))))"

text \<open>The loop \<^verbatim>\<open>for name in sub_losses\<close> that weighs the sub-losses: \<open>names\<close> are the
  keys still to visit, \<open>cnt\<close> the counter.\<close>

fun combine ::
  "real list \<Rightarrow> (string \<times> real) list \<Rightarrow> string list \<Rightarrow> real \<Rightarrow> nat \<Rightarrow> error + real" where
  "combine cs sub_losses [] loss cnt = Inr loss"
| "combine cs sub_losses (name # names) loss cnt =
     bindE (index cs cnt) (\<lambda>c.
     let precision = exp (- c * 2) / 2
     in bindE (getitem (map_of sub_losses) name) (\<lambda>sub_loss.
        bindE (index cs cnt) (\<lambda>c'.
        combine cs sub_losses names (loss + (precision * sub_loss + ln (exp c' + 1))) (cnt + 1))))"

text \<open>What \<^verbatim>\<open>forward\<close> returns: the loss, or the loss with the sub-losses and the
  coefficients.\<close>

datatype forward_result = Loss real | LossSubCoefs real "(string \<times> real) list" "real list"

definition forward ::
  "framework \<Rightarrow> GeoPredModel \<Rightarrow> (string \<rightharpoonup> graph) \<Rightarrow> feat \<Rightarrow> bool \<Rightarrow> error + forward_result" where
  "forward fw m graph_dict feed_dict return_subloss =
     bindE (encode_views fw m graph_dict) (\<lambda>(v, calls).
     bindE (compute_sub_losses fw m feed_dict v) (\<lambda>sub_losses.
     bindE (combine (coefs m) sub_losses (map fst sub_losses) 0 0) (\<lambda>loss.
     if return_subloss then Inr (LossSubCoefs loss sub_losses (coefs m))
     else Inr (Loss loss))))"

section \<open>Notions used by the properties\<close>

text \<open>The contribution of one sub-loss \<open>s\<close> weighted with the coefficient \<open>c\<close>.\<close>

definition weighted_term :: "real \<Rightarrow> real \<Rightarrow> real" where
  "weighted_term c s = exp (- 2 * c) / 2 * s + ln (exp c + 1)"

text \<open>The task tags, in the order in which \<^verbatim>\<open>forward\<close> tests them. A task is active
  when the test \<^verbatim>\<open>tag in self.pretrain_tasks\<close> succeeds.\<close>

definition task_tags :: "string list" where
  "task_tags = [''Cm'', ''Fg'', ''Bar'', ''Dar'', ''Blr'', ''Adc'', ''Cl'']"

definition active :: "GeoPredModel \<Rightarrow> string \<Rightarrow> bool" where
  "active m tg = (py_in tg (pretrain_tasks m) = Inr True)"

text \<open>The sub-loss of the task with a given tag, and the statements of
  \<open>compute_sub_losses\<close> as a loop over a list of tags.\<close>

definition sub_loss_of ::
  "framework \<Rightarrow> GeoPredModel \<Rightarrow> feat \<Rightarrow> views \<Rightarrow> string \<Rightarrow> error + real" where
  "sub_loss_of fw m feed_dict v tg =
     (if tg = ''Cm'' then Cm_sub_loss fw m feed_dict v
      else if tg = ''Fg'' then Fg_sub_loss fw m feed_dict v
      else if tg = ''Bar'' then Bar_sub_loss fw m feed_dict v
      else if tg = ''Dar'' then Dar_sub_loss fw m feed_dict v
      else if tg = ''Blr'' then Blr_sub_loss fw m feed_dict v
      else if tg = ''Adc'' then Adc_sub_loss fw m feed_dict v
      else Cl_sub_loss fw m feed_dict v)"

fun run_tasks ::
  "framework \<Rightarrow> GeoPredModel \<Rightarrow> feat \<Rightarrow> views \<Rightarrow> string list \<Rightarrow> (string \<times> real) list
     \<Rightarrow> error + (string \<times> real) list" where
  "run_tasks fw m feed_dict v [] sub_losses = Inr sub_losses"
| "run_tasks fw m feed_dict v (tg # tgs) sub_losses =
     bindE (task_step tg m (sub_loss_of fw m feed_dict v tg) sub_losses)
       (run_tasks fw m feed_dict v tgs)"

text \<open>The entries that the active tasks among \<open>tgs\<close> add to \<open>sub_losses\<close>, and the
  condition under which none of these statements raises.\<close>

definition entries ::
  "framework \<Rightarrow> GeoPredModel \<Rightarrow> feat \<Rightarrow> views \<Rightarrow> string list \<Rightarrow> (string \<times> real) list" where
  "entries fw m feed_dict v tgs =
     map (\<lambda>tg. (tg @ ''_loss'', projr (sub_loss_of fw m feed_dict v tg))) (filter (active m) tgs)"

definition tasks_ok ::
  "framework \<Rightarrow> GeoPredModel \<Rightarrow> feat \<Rightarrow> views \<Rightarrow> string list \<Rightarrow> bool" where
  "tasks_ok fw m feed_dict v tgs =
     (\<forall>tg \<in> set tgs. (\<exists>b. py_in tg (pretrain_tasks m) = Inr b) \<and>
        (active m tg \<longrightarrow> (\<exists>l. sub_loss_of fw m feed_dict v tg = Inr l)))"

text \<open>A sub-loss \<open>l\<close> is four-fold when it is the sum of four calls of the task's loss: on the
  representation of the canonical graphs, of their masked version, of the second conformer
  and of its masked version, in this order. \<open>part\<close> selects the node or the graph
  representation; the calls on the second conformer read the \<^verbatim>\<open>_conf_cl_1\<close> entries of
  \<open>feed_dict\<close>.\<close>

definition four_fold ::
  "(string \<Rightarrow> tensor \<Rightarrow> error + real) \<Rightarrow> (reprs \<Rightarrow> tensor) \<Rightarrow> views \<Rightarrow> real \<Rightarrow> bool" where
  "four_fold call part v l =
     (\<exists>l1 l2 l3 l4.
        call [] (part (canonical v)) = Inr l1 \<and>
        call [] (part (masked v)) = Inr l2 \<and>
        call ''_conf_cl_1'' (part (conf_cl_1 v)) = Inr l3 \<and>
        call ''_conf_cl_1'' (part (masked_conf_cl_1 v)) = Inr l4 \<and>
        l = l1 + l2 + l3 + l4)"

text \<open>The keys of \<open>graph_dict\<close> that the four encoder calls read, in the order of the
  calls.\<close>

definition view_keys :: "(string \<times> string \<times> string) list" where
  "view_keys =
     [(''atom_bond_graph'', ''bond_angle_graph'', ''dihes_angle_graph''),
      (''atom_bond_graph_conf_cl_1'', ''bond_angle_graph_conf_cl_1'',
       ''dihes_angle_graph_conf_cl_1''),
      (''masked_atom_bond_graph'', ''masked_bond_angle_graph'', ''masked_dihes_angle_graph''),
      (''masked_atom_bond_graph_conf_cl_1'', ''masked_bond_angle_graph_conf_cl_1'',
       ''masked_dihes_angle_graph_conf_cl_1'')]"

text \<open>Two models agree except on task \<open>t\<close> when they have the same encoder, the same
  coefficients and the same heads for every task other than \<open>t\<close> (the head of Cl is never
  read, so it is not compared).\<close>

definition heads_agree_except :: "string \<Rightarrow> GeoPredModel \<Rightarrow> GeoPredModel \<Rightarrow> bool" where
  "heads_agree_except t m m' =
     (compound_encoder m' = compound_encoder m \<and> coefs m' = coefs m \<and>
      Fg_linear m' = Fg_linear m \<and> Fg_loss m' = Fg_loss m \<and>
      (t \<noteq> ''Cm'' \<longrightarrow> Cm m' = Cm m) \<and>
      (t \<noteq> ''Bar'' \<longrightarrow> Bar m' = Bar m) \<and>
      (t \<noteq> ''Dar'' \<longrightarrow> Dar m' = Dar m) \<and>
      (t \<noteq> ''Blr'' \<longrightarrow> Blr m' = Blr m) \<and>
      (t \<noteq> ''Adc'' \<longrightarrow> Adc m' = Adc m))"

section \<open>A small framework and inputs\<close>

text \<open>
  An instance of the framework on tensors of shape \<open>[1, 1]\<close>, with graphs, dictionaries and
  configurations to run the model on. Every layer returns the sum of the elements of its
  input, so the four graphs of a forward call get four different representations.
\<close>

definition scalar :: "real \<Rightarrow> tensor" where
  "scalar x = FloatTensor [1, 1] [x]"

definition total :: "tensor \<Rightarrow> real" where
  "total t = sum_list (elems t)"

definition feat_total :: "feat \<Rightarrow> real" where
  "feat_total f = (case f ''x'' of None \<Rightarrow> 0 | Some t \<Rightarrow> total t)"

definition demo_fw :: framework where
  "demo_fw =
     \<lparr> AtomEmbedding = (\<lambda>tg names dim f. scalar (feat_total f)),
       BondEmbedding = (\<lambda>tg names dim f. scalar (feat_total f)),
       BondFloatRBF = (\<lambda>tg names dim f. scalar (feat_total f)),
       BondAngleFloatRBF = (\<lambda>tg names dim f. scalar (feat_total f)),
       GIN = (\<lambda>tg dim g n e. (scalar (total n + total e), scalar (total e))),
       LayerNorm = (\<lambda>tg dim t. scalar (total t)),
       GraphNorm = (\<lambda>g t. scalar (total t)),
       ReLU = (\<lambda>t. scalar (max 0 (total t))),
       Dropout = (\<lambda>p t. scalar (total t)),
       MeanPool = (\<lambda>g t. scalar (total t)),
       GraphPool = (\<lambda>kind g t. scalar (total t)),
       tensor_add = (\<lambda>a b. scalar (total a + total b)),
       MLP = (\<lambda>tg n hidden actv in_size out_size drop t. scalar (total t)),
       CrossEntropyLoss = (\<lambda>logits label. \<bar>total logits - total label\<bar>),
       BCEWithLogitsLoss = (\<lambda>logits label. \<bar>total logits - total label\<bar>),
       SmoothL1Loss = (\<lambda>a b. \<bar>total a - total b\<bar>),
       WeightedNTXentLoss_func = (\<lambda>x1 x2 mols rms. total x1 + 2 * total x2),
       gather = (\<lambda>t i. scalar (total t)),
       concat_axis1 = (\<lambda>ts. scalar (sum_list (map total ts))),
       normalize_axis1 = (\<lambda>t. scalar (total t)) \<rparr>"

definition demo_graph :: "real \<Rightarrow> graph" where
  "demo_graph x =
     \<lparr> num_nodes = 1, edges = [],
       node_feat = map_of [(''x'', scalar x)],
       edge_feat = map_of [(''x'', scalar x)] \<rparr>"

definition demo_encoder_config :: "int \<Rightarrow> string \<rightharpoonup> pyval" where
  "demo_encoder_config n = map_of
     [(''embed_dim'', PyInt 1), (''layer_num'', PyInt n),
      (''atom_names'', PyStrs [''x'']), (''bond_names'', PyStrs [''x'']),
      (''bond_float_names'', PyStrs [''x'']), (''bond_angle_float_names'', PyStrs [''x''])]"

definition demo_graph_dict :: "string \<rightharpoonup> graph" where
  "demo_graph_dict = map_of
     [(''atom_bond_graph'', demo_graph 1),
      (''bond_angle_graph'', demo_graph 1),
      (''dihes_angle_graph'', demo_graph 1),
      (''atom_bond_graph_conf_cl_1'', demo_graph 2),
      (''bond_angle_graph_conf_cl_1'', demo_graph 2),
      (''dihes_angle_graph_conf_cl_1'', demo_graph 2),
      (''masked_atom_bond_graph'', demo_graph 3),
      (''masked_bond_angle_graph'', demo_graph 3),
      (''masked_dihes_angle_graph'', demo_graph 3),
      (''masked_atom_bond_graph_conf_cl_1'', demo_graph 4),
      (''masked_bond_angle_graph_conf_cl_1'', demo_graph 4),
      (''masked_dihes_angle_graph_conf_cl_1'', demo_graph 4)]"

definition demo_feed_dict :: "real \<Rightarrow> feat" where
  "demo_feed_dict a = map_of
     [(''Cm_node_i'', IntTensor [1] [0]),
      (''Cm_node_i_conf_cl_1'', IntTensor [1] [0]),
      (''Cm_context_id'', IntTensor [1] [0]),
      (''Cm_context_id_conf_cl_1'', IntTensor [1] [0]),
      (''Ba_node_i'', IntTensor [1] [0]),
      (''Ba_node_i_conf_cl_1'', IntTensor [1] [0]),
      (''Ba_node_j'', IntTensor [1] [0]),
      (''Ba_node_j_conf_cl_1'', IntTensor [1] [0]),
      (''Ba_node_k'', IntTensor [1] [0]),
      (''Ba_node_k_conf_cl_1'', IntTensor [1] [0]),
      (''Ba_bond_angle'', FloatTensor [1] [a]),
      (''Ba_bond_angle_conf_cl_1'', FloatTensor [1] [a]),
      (''Da_node_i'', IntTensor [1] [0]),
      (''Da_node_i_conf_cl_1'', IntTensor [1] [0]),
      (''Da_node_j'', IntTensor [1] [0]),
      (''Da_node_j_conf_cl_1'', IntTensor [1] [0]),
      (''Da_node_k'', IntTensor [1] [0]),
      (''Da_node_k_conf_cl_1'', IntTensor [1] [0]),
      (''Da_node_l'', IntTensor [1] [0]),
      (''Da_node_l_conf_cl_1'', IntTensor [1] [0]),
      (''Da_bond_angle'', FloatTensor [1] [a]),
      (''Da_bond_angle_conf_cl_1'', FloatTensor [1] [a]),
      (''Da_node_i_extra'', IntTensor [1] [0]),
      (''Da_node_i_extra_conf_cl_1'', IntTensor [1] [0]),
      (''Da_node_j_extra'', IntTensor [1] [0]),
      (''Da_node_j_extra_conf_cl_1'', IntTensor [1] [0]),
      (''Da_node_k_extra'', IntTensor [1] [0]),
      (''Da_node_k_extra_conf_cl_1'', IntTensor [1] [0]),
      (''Da_node_l_extra'', IntTensor [1] [0]),
      (''Da_node_l_extra_conf_cl_1'', IntTensor [1] [0]),
      (''Da_bond_angle_extra'', FloatTensor [1] [a]),
      (''Da_bond_angle_extra_conf_cl_1'', FloatTensor [1] [a]),
      (''Bl_node_i'', IntTensor [1] [0]),
      (''Bl_node_i_conf_cl_1'', IntTensor [1] [0]),
      (''Bl_node_j'', IntTensor [1] [0]),
      (''Bl_node_j_conf_cl_1'', IntTensor [1] [0]),
      (''Bl_bond_length'', scalar 1),
      (''Bl_bond_length_conf_cl_1'', scalar 1),
      (''Ad_node_i'', IntTensor [1] [0]),
      (''Ad_node_i_conf_cl_1'', IntTensor [1] [0]),
      (''Ad_node_j'', IntTensor [1] [0]),
      (''Ad_node_j_conf_cl_1'', IntTensor [1] [0]),
      (''Ad_atom_dist'', scalar 1),
      (''Ad_atom_dist_conf_cl_1'', scalar 1),
      (''Fg_morgan'', scalar 0),
      (''Fg_daylight'', scalar 0),
      (''Fg_maccs'', scalar 0),
      (''fp_score'', scalar 1),
      (''rms'', scalar 1)]"

definition demo_pred_config :: "string list \<Rightarrow> string \<rightharpoonup> pyval" where
  "demo_pred_config tasks = map_of
     [(''hidden_size'', PyInt 4), (''dropout_rate'', PyFloat (1 / 5)), (''act'', PyStr ''gelu''),
      (''pretrain_tasks'', PyStrs tasks),
      (''Cm_vocab'', PyInt 10), (''Fg_size'', PyInt 3), (''Bar_vocab'', PyInt 10),
      (''Dar_vocab'', PyInt 10), (''Blr_vocab'', PyInt 10), (''Adc_vocab'', PyInt 10),
      (''Cl_vocab'', PyInt 10)]"

definition demo_encoder :: GeoGNNModel where
  "demo_encoder = projr (GeoGNNModel_init demo_fw (demo_encoder_config 0))"

definition demo_model :: "string list \<Rightarrow> real list \<Rightarrow> GeoPredModel" where
  "demo_model tasks cs =
     (projr (GeoPredModel_init demo_fw (demo_pred_config tasks) demo_encoder))\<lparr>coefs := cs\<rparr>"

definition demo_views :: views where
  "demo_views =
     \<lparr> canonical = (scalar 1, scalar 2, scalar 1), conf_cl_1 = (scalar 2, scalar 4, scalar 2),
       masked = (scalar 3, scalar 6, scalar 3), masked_conf_cl_1 = (scalar 4, scalar 8, scalar 4) \<rparr>"

definition demo_value :: "string \<Rightarrow> real" where
  "demo_value tg =
     (if tg = ''Cm'' then 10 else if tg = ''Fg'' then 10 else if tg = ''Bar'' then 22
      else if tg = ''Dar'' then 80 else if tg = ''Blr'' then 16 else if tg = ''Adc'' then 16
      else 17)"

text \<open>The sub-losses of the seven tasks on these inputs.\<close>

definition demo_sub_losses :: "(string \<times> real) list" where
  "demo_sub_losses =
     [(''Cm_loss'', 10), (''Fg_loss'', 10), (''Bar_loss'', 22), (''Dar_loss'', 80),
      (''Blr_loss'', 16), (''Adc_loss'', 16), (''Cl_loss'', 17)]"

text \<open>Coefficients as after training: not all equal.\<close>

definition demo_coefs :: "real list" where
  "demo_coefs = [0, 1, 0, 0, 0, 0, 0, 0]"

section \<open>Lemmas about the model\<close>

lemma bindE_Inl [simp]: "bindE (Inl e) f = Inl e"
  by (simp add: bindE_def)

lemma bindE_Inr [simp]: "bindE (Inr x) f = f x"
  by (simp add: bindE_def)

lemma bindE_Inr_right [simp]: "bindE m Inr = m"
  by (cases m) simp_all

lemma bindE_eq_Inr: "bindE m f = Inr y \<longleftrightarrow> (\<exists>x. m = Inr x \<and> f x = Inr y)"
  by (cases m) simp_all

lemma if_Inr: "(if b then Inr x else Inr y) = Inr (if b then x else y)"
  by simp

lemma combine_eq:
  assumes "\<forall>n \<in> set names. \<exists>s. map_of subs n = Some s"
  shows "combine cs subs names loss cnt =
     (if names = [] \<or> cnt + length names \<le> length cs
      then Inr (loss + (\<Sum>i<length names.
                  weighted_term (cs ! (cnt + i)) (the (map_of subs (names ! i)))))
      else Inl IndexError)"
  using assms
proof (induction names arbitrary: loss cnt)
  case Nil
  then show ?case by simp
next
  case (Cons n ns)
  from Cons.prems obtain s where s: "map_of subs n = Some s" by auto
  have rest: "\<forall>n \<in> set ns. \<exists>s. map_of subs n = Some s" using Cons.prems by simp
  show ?case
  proof (cases "cnt < length cs")
    case False
    then show ?thesis by (simp add: index_def)
  next
    case True
    have step: "combine cs subs (n # ns) loss cnt =
        combine cs subs ns (loss + weighted_term (cs ! cnt) s) (cnt + 1)"
      using True s by (simp add: index_def getitem_def weighted_term_def Let_def mult.commute)
    show ?thesis
      unfolding step Cons.IH [OF rest]
      using True s by (auto simp add: sum.lessThan_Suc_shift add.assoc simp del: sum.lessThan_Suc)
  qed
qed

lemma run_tasks_Cons_fun:
  "run_tasks fw m feed_dict v (tg # tgs) =
     (\<lambda>s. bindE (task_step tg m (sub_loss_of fw m feed_dict v tg) s)
            (run_tasks fw m feed_dict v tgs))"
  by (rule ext) simp

lemma run_tasks_Nil_fun: "run_tasks fw m feed_dict v [] = Inr"
  by (rule ext) simp

lemma compute_sub_losses_run:
  "compute_sub_losses fw m feed_dict v = run_tasks fw m feed_dict v task_tags []"
  by (simp add: compute_sub_losses_def task_tags_def sub_loss_of_def
        run_tasks_Cons_fun run_tasks_Nil_fun)

lemma update_fresh: "k \<notin> fst ` set al \<Longrightarrow> AList.update k v al = al @ [(k, v)]"
  by (induction al) auto

lemma task_step_eq_Inr:
  "task_step tg m sl subs = Inr subs' \<longleftrightarrow>
     (\<exists>b. py_in tg (pretrain_tasks m) = Inr b \<and>
        (if b then \<exists>l. sl = Inr l \<and> subs' = AList.update (tg @ ''_loss'') l subs
         else subs' = subs))"
  by (auto simp add: task_step_def bindE_eq_Inr)

lemma run_tasks_iff:
  assumes "distinct tgs" and "\<forall>tg \<in> set tgs. tg @ ''_loss'' \<notin> fst ` set subs"
  shows "run_tasks fw m fd v tgs subs = Inr subs' \<longleftrightarrow>
           tasks_ok fw m fd v tgs \<and> subs' = subs @ entries fw m fd v tgs"
  using assms
proof (induction tgs arbitrary: subs)
  case Nil
  then show ?case by (auto simp add: tasks_ok_def entries_def)
next
  case (Cons tg tgs)
  have d: "distinct tgs" and nin: "tg \<notin> set tgs" using Cons.prems(1) by auto
  have fresh: "tg @ ''_loss'' \<notin> fst ` set subs" using Cons.prems(2) by simp
  have fresh_rest: "\<forall>t \<in> set tgs. t @ ''_loss'' \<notin> fst ` set subs" using Cons.prems(2) by simp
  have fresh_upd: "\<forall>t \<in> set tgs. t @ ''_loss'' \<notin> fst ` set (subs @ [(tg @ ''_loss'', l)])" for l
    using fresh_rest nin by auto
  show ?case
  proof (cases "py_in tg (pretrain_tasks m)")
    case (Inl e)
    then show ?thesis by (auto simp add: task_step_def tasks_ok_def)
  next
    case (Inr b)
    show ?thesis
    proof (cases b)
      case False
      then have st: "task_step tg m (sub_loss_of fw m fd v tg) subs = Inr subs"
        using Inr by (simp add: task_step_def)
      have na: "\<not> active m tg" using Inr False by (simp add: active_def)
      show ?thesis
        using Cons.IH [OF d fresh_rest] na Inr
        by (auto simp add: st tasks_ok_def entries_def)
    next
      case True
      have a: "active m tg" using Inr True by (simp add: active_def)
      show ?thesis
      proof (cases "sub_loss_of fw m fd v tg")
        case (Inl e)
        then show ?thesis using Inr True a by (auto simp add: task_step_def tasks_ok_def)
      next
        case sl: (Inr l)
        have st: "task_step tg m (Inr l) subs = Inr (subs @ [(tg @ ''_loss'', l)])"
          using Inr True fresh by (simp add: task_step_def update_fresh)
        show ?thesis
          using Cons.IH [OF d fresh_upd [of l]] a Inr sl
          by (auto simp add: st tasks_ok_def entries_def)
      qed
    qed
  qed
qed

lemma compute_sub_losses_iff:
  "compute_sub_losses fw m fd v = Inr subs \<longleftrightarrow>
     tasks_ok fw m fd v task_tags \<and> subs = entries fw m fd v task_tags"
  unfolding compute_sub_losses_run
  by (subst run_tasks_iff) (simp_all add: task_tags_def)

lemma forward_True_iff:
  "forward fw m gd fd True = Inr (LossSubCoefs loss subs cs) \<longleftrightarrow>
     (\<exists>v calls. encode_views fw m gd = Inr (v, calls) \<and>
        compute_sub_losses fw m fd v = Inr subs \<and>
        combine (coefs m) subs (map fst subs) 0 0 = Inr loss \<and> cs = coefs m)"
  by (auto simp add: forward_def bindE_eq_Inr)

lemma forward_False_iff:
  "forward fw m gd fd False = Inr (Loss loss) \<longleftrightarrow>
     (\<exists>v calls subs. encode_views fw m gd = Inr (v, calls) \<and>
        compute_sub_losses fw m fd v = Inr subs \<and>
        combine (coefs m) subs (map fst subs) 0 0 = Inr loss)"
  by (auto simp add: forward_def bindE_eq_Inr)

lemma entries_keys:
  "map fst (entries fw m fd v tgs) = map (\<lambda>tg. tg @ ''_loss'') (filter (active m) tgs)"
  by (simp add: entries_def comp_def)

lemma entries_distinct: "distinct tgs \<Longrightarrow> distinct (map fst (entries fw m fd v tgs))"
  by (simp add: entries_keys distinct_map inj_on_def)

lemma map_of_nth_distinct:
  "distinct (map fst xs) \<Longrightarrow> i < length xs \<Longrightarrow> map_of xs (fst (xs ! i)) = Some (snd (xs ! i))"
  by (simp add: map_of_eq_Some_iff)

lemma combine_keys:
  assumes "distinct (map fst subs)"
  shows "combine cs subs (map fst subs) 0 0 =
     (if length subs \<le> length cs
      then Inr (\<Sum>i<length subs. weighted_term (cs ! i) (snd (subs ! i)))
      else Inl IndexError)"
proof -
  have dom: "\<forall>n \<in> set (map fst subs). \<exists>s. map_of subs n = Some s"
    using assms by (auto simp add: map_of_eq_Some_iff)
  have val: "the (map_of subs (map fst subs ! i)) = snd (subs ! i)" if "i < length subs" for i
    using map_of_nth_distinct [OF assms that] that by simp
  show ?thesis
    unfolding combine_eq [OF dom]
    using val by (cases "subs = []") auto
qed

lemma task_tags_distinct: "distinct task_tags"
  by (simp add: task_tags_def)

lemma trunc_of_int [simp]: "trunc (of_int k) = k"
  by (simp add: trunc_def)

lemma trunc_numeral [simp]: "trunc (numeral k) = numeral k"
  using trunc_of_int [of "numeral k"] by simp

lemma entries_length: "length (entries fw m fd v task_tags) \<le> 7"
proof -
  have "length (filter (active m) task_tags) \<le> length task_tags"
    by (rule length_filter_le)
  then show ?thesis by (simp add: entries_def task_tags_def)
qed

lemma GeoPredModel_init_coefs:
  "GeoPredModel_init fw cfg enc = Inr m \<Longrightarrow> coefs m = replicate 8 0"
  by (auto simp add: GeoPredModel_init_def bindE_eq_Inr Let_def)

lemma entries_map_of:
  "tg \<in> set tgs \<Longrightarrow> active m tg \<Longrightarrow>
     map_of (entries fw m fd v tgs) (tg @ ''_loss'') = Some (projr (sub_loss_of fw m fd v tg))"
  by (induction tgs) (auto simp add: entries_def)

lemma sub_entry:
  assumes "compute_sub_losses fw m fd v = Inr subs" and "tg \<in> set task_tags" and "active m tg"
  shows "\<exists>l. sub_loss_of fw m fd v tg = Inr l \<and> map_of subs (tg @ ''_loss'') = Some l"
proof -
  from assms(1) have ok: "tasks_ok fw m fd v task_tags"
    and subs: "subs = entries fw m fd v task_tags"
    by (simp_all add: compute_sub_losses_iff)
  from ok assms(2,3) obtain l where l: "sub_loss_of fw m fd v tg = Inr l"
    by (auto simp add: tasks_ok_def)
  have "map_of subs (tg @ ''_loss'') = Some l"
    unfolding subs using entries_map_of [OF assms(2,3)] l by simp
  with l show ?thesis by blast
qed

lemma sum4_eq_Inr:
  "sum4 a b c e = Inr l \<longleftrightarrow>
     (\<exists>l1 l2 l3 l4. a = Inr l1 \<and> b = Inr l2 \<and> c = Inr l3 \<and> e = Inr l4 \<and> l = l1 + l2 + l3 + l4)"
  by (auto simp add: sum4_def bindE_eq_Inr)

lemma bindE_prod_eq_Inr:
  "bindE m (\<lambda>(a, b). f a b) = Inr y \<longleftrightarrow> (\<exists>a b. m = Inr (a, b) \<and> f a b = Inr y)"
  by (cases m) auto

lemma getitem_Inr: "getitem d k = Inr x \<longleftrightarrow> d k = Some x"
  by (simp add: getitem_def split: option.splits)

lemma encoder_call_Inr:
  "encoder_call fw m gd k1 k2 k3 calls = Inr (r, calls') \<longleftrightarrow>
     (\<exists>g1 g2 g3. gd k1 = Some g1 \<and> gd k2 = Some g2 \<and> gd k3 = Some g3 \<and>
        GeoGNNModel_forward fw (compound_encoder m) g1 g2 g3 = Inr r \<and>
        calls' = calls @ [(g1, g2, g3)])"
  unfolding encoder_call_def bindE_eq_Inr getitem_Inr
  by (auto simp del: split_paired_Ex)

lemma encode_views_Inr:
  assumes "encode_views fw m gd = Inr (v, calls)"
  shows "length calls = 4 \<and>
    map (\<lambda>(g1, g2, g3). GeoGNNModel_forward fw (compound_encoder m) g1 g2 g3) calls =
      [Inr (canonical v), Inr (conf_cl_1 v), Inr (masked v), Inr (masked_conf_cl_1 v)] \<and>
    map (\<lambda>(k1, k2, k3). (gd k1, gd k2, gd k3)) view_keys =
      map (\<lambda>(g1, g2, g3). (Some g1, Some g2, Some g3)) calls"
proof -
  from assms obtain r1 c1 r2 c2 r3 c3 r4 where
    e1: "encoder_call fw m gd ''atom_bond_graph'' ''bond_angle_graph'' ''dihes_angle_graph'' []
           = Inr (r1, c1)" and
    e2: "encoder_call fw m gd ''atom_bond_graph_conf_cl_1'' ''bond_angle_graph_conf_cl_1''
           ''dihes_angle_graph_conf_cl_1'' c1 = Inr (r2, c2)" and
    e3: "encoder_call fw m gd ''masked_atom_bond_graph'' ''masked_bond_angle_graph''
           ''masked_dihes_angle_graph'' c2 = Inr (r3, c3)" and
    e4: "encoder_call fw m gd ''masked_atom_bond_graph_conf_cl_1''
           ''masked_bond_angle_graph_conf_cl_1'' ''masked_dihes_angle_graph_conf_cl_1'' c3
           = Inr (r4, calls)" and
    v: "v = \<lparr> canonical = r1, conf_cl_1 = r2, masked = r3, masked_conf_cl_1 = r4 \<rparr>"
    unfolding encode_views_def bindE_prod_eq_Inr by auto
  from e1 e2 e3 e4 show ?thesis
    unfolding encoder_call_Inr v
    by (auto simp add: view_keys_def)
qed

lemma forward_TrueI:
  assumes "encode_views fw m gd = Inr (v, calls)"
    and "compute_sub_losses fw m fd v = Inr subs"
    and "length subs \<le> length (coefs m)"
  shows "forward fw m gd fd True =
     Inr (LossSubCoefs (\<Sum>i<length subs. weighted_term (coefs m ! i) (snd (subs ! i))) subs
            (coefs m))"
proof -
  have "subs = entries fw m fd v task_tags"
    using assms(2) by (simp add: compute_sub_losses_iff)
  then have dist: "distinct (map fst subs)"
    using entries_distinct [OF task_tags_distinct] by simp
  show ?thesis
    unfolding forward_True_iff combine_keys [OF dist] using assms by auto
qed

lemma four_foldI:
  "sum4 (call [] (part (canonical v))) (call [] (part (masked v)))
        (call ''_conf_cl_1'' (part (conf_cl_1 v))) (call ''_conf_cl_1'' (part (masked_conf_cl_1 v)))
     = Inr l \<Longrightarrow> four_fold call part v l"
  unfolding sum4_eq_Inr four_fold_def by blast

lemma Cl_call_eq_Inr:
  "Cl_call fw m fd g1 g2 = Inr l \<longleftrightarrow>
     (\<exists>fp rms. fd ''fp_score'' = Some fp \<and> fd ''rms'' = Some rms \<and>
        l = get_Cl_loss fw m (normalize_axis1 fw g1) (normalize_axis1 fw g2) fp (Some rms))"
  by (auto simp add: Cl_call_def bindE_eq_Inr getitem_Inr Let_def)

lemma Cl_sub_loss_eq_Inr:
  "Cl_sub_loss fw m fd v = Inr l \<longleftrightarrow>
     (\<exists>fp rms. fd ''fp_score'' = Some fp \<and> fd ''rms'' = Some rms \<and>
        l = get_Cl_loss fw m (normalize_axis1 fw (graph_of (conf_cl_1 v)))
              (normalize_axis1 fw (graph_of (masked v))) fp (Some rms)
          + get_Cl_loss fw m (normalize_axis1 fw (graph_of (canonical v)))
              (normalize_axis1 fw (graph_of (masked_conf_cl_1 v))) fp (Some rms))"
  by (auto simp add: Cl_sub_loss_def bindE_eq_Inr Cl_call_eq_Inr)

lemma Cm_sub_loss_cong: "Cm m' = Cm m \<Longrightarrow> Cm_sub_loss fw m' fd v = Cm_sub_loss fw m fd v"
  by (simp add: Cm_sub_loss_def Cm_call_def get_Cm_loss_def)

lemma Fg_sub_loss_cong:
  "Fg_linear m' = Fg_linear m \<Longrightarrow> Fg_loss m' = Fg_loss m \<Longrightarrow>
     Fg_sub_loss fw m' fd v = Fg_sub_loss fw m fd v"
  by (simp add: Fg_sub_loss_def get_Fg_loss_def)

lemma Bar_sub_loss_cong: "Bar m' = Bar m \<Longrightarrow> Bar_sub_loss fw m' fd v = Bar_sub_loss fw m fd v"
  by (simp add: Bar_sub_loss_def Bar_call_def get_Bar_loss_def)

lemma Dar_sub_loss_cong: "Dar m' = Dar m \<Longrightarrow> Dar_sub_loss fw m' fd v = Dar_sub_loss fw m fd v"
  by (simp add: Dar_sub_loss_def Dar_call_def get_Dar_loss_def)

lemma Blr_sub_loss_cong: "Blr m' = Blr m \<Longrightarrow> Blr_sub_loss fw m' fd v = Blr_sub_loss fw m fd v"
  by (simp add: Blr_sub_loss_def Blr_call_def get_Blr_loss_def)

lemma Adc_sub_loss_cong: "Adc m' = Adc m \<Longrightarrow> Adc_sub_loss fw m' fd v = Adc_sub_loss fw m fd v"
  by (simp add: Adc_sub_loss_def Adc_call_def get_Adc_loss_def)

lemma Cl_sub_loss_cong: "Cl_sub_loss fw m' fd v = Cl_sub_loss fw m fd v"
  by (simp add: Cl_sub_loss_def Cl_call_def get_Cl_loss_def)

lemma sub_loss_of_cong:
  assumes "heads_agree_except t m m'" and "tg \<noteq> t \<or> tg = ''Cl''"
  shows "sub_loss_of fw m' fd v tg = sub_loss_of fw m fd v tg"
proof -
  consider (Cm) "tg = ''Cm''" | (Fg) "tg = ''Fg''" | (Bar) "tg = ''Bar''" | (Dar) "tg = ''Dar''"
    | (Blr) "tg = ''Blr''" | (Adc) "tg = ''Adc''"
    | (other) "tg \<noteq> ''Cm''" "tg \<noteq> ''Fg''" "tg \<noteq> ''Bar''" "tg \<noteq> ''Dar''" "tg \<noteq> ''Blr''"
        "tg \<noteq> ''Adc''"
    by blast
  then show ?thesis
  proof cases
    case Cm
    then have e: "Cm m' = Cm m" using assms by (auto simp add: heads_agree_except_def)
    show ?thesis using Cm Cm_sub_loss_cong [OF e] by (simp add: sub_loss_of_def)
  next
    case Fg
    have e: "Fg_linear m' = Fg_linear m" "Fg_loss m' = Fg_loss m"
      using assms(1) by (simp_all add: heads_agree_except_def)
    show ?thesis using Fg Fg_sub_loss_cong [OF e] by (simp add: sub_loss_of_def)
  next
    case Bar
    then have e: "Bar m' = Bar m" using assms by (auto simp add: heads_agree_except_def)
    show ?thesis using Bar Bar_sub_loss_cong [OF e] by (simp add: sub_loss_of_def)
  next
    case Dar
    then have e: "Dar m' = Dar m" using assms by (auto simp add: heads_agree_except_def)
    show ?thesis using Dar Dar_sub_loss_cong [OF e] by (simp add: sub_loss_of_def)
  next
    case Blr
    then have e: "Blr m' = Blr m" using assms by (auto simp add: heads_agree_except_def)
    show ?thesis using Blr Blr_sub_loss_cong [OF e] by (simp add: sub_loss_of_def)
  next
    case Adc
    then have e: "Adc m' = Adc m" using assms by (auto simp add: heads_agree_except_def)
    show ?thesis using Adc Adc_sub_loss_cong [OF e] by (simp add: sub_loss_of_def)
  next
    case other
    then show ?thesis
      using Cl_sub_loss_cong [of fw m' fd v m] by (simp add: sub_loss_of_def)
  qed
qed

lemma encode_views_cong:
  "compound_encoder m' = compound_encoder m \<Longrightarrow> encode_views fw m' gd = encode_views fw m gd"
  by (simp add: encode_views_def encoder_call_def)

lemma run_tasks_cong:
  assumes "pretrain_tasks m' = pretrain_tasks m"
    and "\<And>tg. tg \<in> set tgs \<Longrightarrow> sub_loss_of fw m' fd v tg = sub_loss_of fw m fd v tg"
  shows "run_tasks fw m' fd v tgs subs = run_tasks fw m fd v tgs subs"
  using assms(2)
proof (induction tgs arbitrary: subs)
  case Nil
  then show ?case by simp
next
  case (Cons tg tgs)
  have "run_tasks fw m' fd v tgs = run_tasks fw m fd v tgs"
    using Cons by (intro ext) simp
  then show ?case
    using Cons.prems assms(1) by (simp add: task_step_def)
qed

lemma forward_Cl_update: "forward fw (m\<lparr>Cl := c\<rparr>) gd fd rs = forward fw m gd fd rs"
proof -
  have h: "heads_agree_except ''Cl'' m (m\<lparr>Cl := c\<rparr>)"
    by (simp add: heads_agree_except_def)
  have "compute_sub_losses fw (m\<lparr>Cl := c\<rparr>) fd v = compute_sub_losses fw m fd v" for v
    unfolding compute_sub_losses_run
    by (rule run_tasks_cong) (simp, rule sub_loss_of_cong [OF h], simp)
  moreover have "encode_views fw (m\<lparr>Cl := c\<rparr>) gd = encode_views fw m gd"
    by (rule encode_views_cong) simp
  ultimately show ?thesis
    by (simp add: forward_def cong: if_cong)
qed

lemma Cl_sub_loss_depends:
  assumes "graph_of (canonical v') = graph_of (canonical v)"
    and "graph_of (conf_cl_1 v') = graph_of (conf_cl_1 v)"
    and "graph_of (masked v') = graph_of (masked v)"
    and "graph_of (masked_conf_cl_1 v') = graph_of (masked_conf_cl_1 v)"
    and "fd' ''fp_score'' = fd ''fp_score''" and "fd' ''rms'' = fd ''rms''"
  shows "Cl_sub_loss fw m' fd' v' = Cl_sub_loss fw m fd v"
  using assms by (simp add: Cl_sub_loss_def Cl_call_def get_Cl_loss_def getitem_def)

lemma when_task_eq_Inr:
  "when_task tg tasks build = Inr h \<longleftrightarrow>
     (\<exists>b. py_in tg tasks = Inr b \<and>
        (if b then \<exists>x. build = Inr x \<and> h = Some x else h = None))"
  by (auto simp add: when_task_def bindE_eq_Inr)

lemma init_Cl_head:
  assumes "GeoPredModel_init fw cfg enc = Inr m" and "active m ''Cl''"
  shows "\<exists>vocab. cfg ''Cl_vocab'' = Some vocab \<and>
     Cl m = Some \<lparr> Cl_vocab = vocab,
       Cl_linear = MLP fw (''Cl_linear'', 0) 2 (hidden_size m) (act m)
          (GeoGNNModel.embed_dim enc) (PyInt 1) (dropout_rate m),
       Cl_loss = SmoothL1Loss fw \<rparr>"
proof -
  from assms(1) obtain Cl_v where
    w: "when_task ''Cl'' (pretrain_tasks m)
         (bindE (getitem cfg ''Cl_vocab'') (\<lambda>vocab.
          Inr \<lparr> Cl_vocab = vocab,
                Cl_linear = MLP fw (''Cl_linear'', 0) 2 (hidden_size m) (act m)
                  (GeoGNNModel.embed_dim enc) (PyInt 1) (dropout_rate m),
                Cl_loss = SmoothL1Loss fw \<rparr>)) = Inr Cl_v" and
    c: "Cl m = Cl_v"
    by (auto simp add: GeoPredModel_init_def bindE_eq_Inr Let_def)
  from assms(2) have a: "py_in ''Cl'' (pretrain_tasks m) = Inr True"
    by (simp add: active_def)
  from w a c show ?thesis
    by (auto simp add: when_task_def bindE_eq_Inr getitem_Inr)
qed

lemma getitem_upd:
  "getitem (d(k \<mapsto> x)) k' = (if k' = k then Inr x else getitem d k')"
  by (simp add: getitem_def)

lemma map_sum_bindE: "map_sum id g (bindE m f) = bindE m (\<lambda>x. map_sum id g (f x))"
  by (cases m) simp_all

lemma bindE_assoc: "bindE (bindE m f) g = bindE m (\<lambda>x. bindE (f x) g)"
  by (cases m) simp_all

lemma when_task_Inr:
  "when_task tg tasks (Inr h) = bindE (py_in tg tasks) (\<lambda>b. Inr (if b then Some h else None))"
  by (cases "py_in tg tasks") (simp_all add: when_task_def)

lemma map_option_if:
  "map_option f (if b then Some x else None) = (if b then Some (f x) else None)"
  by simp

lemma init_Cl_vocab_eq:
  "GeoPredModel_init fw (cfg(''Cl_vocab'' \<mapsto> b)) enc =
     map_sum id (\<lambda>m. m\<lparr>Cl := map_option (\<lambda>h. h\<lparr>Cl_vocab := b\<rparr>) (Cl m)\<rparr>)
       (GeoPredModel_init fw (cfg(''Cl_vocab'' \<mapsto> a)) enc)"
  unfolding GeoPredModel_init_def Let_def
  by (simp add: map_sum_bindE bindE_assoc getitem_upd when_task_Inr map_option_if cong: if_cong)

lemma init_Cl_vocab:
  assumes "GeoPredModel_init fw (cfg(''Cl_vocab'' \<mapsto> a)) enc = Inr m"
  shows "GeoPredModel_init fw (cfg(''Cl_vocab'' \<mapsto> b)) enc =
           Inr (m\<lparr>Cl := map_option (\<lambda>h. h\<lparr>Cl_vocab := b\<rparr>) (Cl m)\<rparr>)"
  using init_Cl_vocab_eq [of fw cfg b enc a] assms by simp

lemma active_PyStrs: "pretrain_tasks m = PyStrs T \<Longrightarrow> active m tg \<longleftrightarrow> tg \<in> set T"
  by (simp add: active_def py_in_def)

lemma delete_entries:
  "AList.delete (t @ ''_loss'') (entries fw m fd v tgs) =
     map (\<lambda>tg. (tg @ ''_loss'', projr (sub_loss_of fw m fd v tg)))
       (filter (\<lambda>tg. active m tg \<and> tg \<noteq> t) tgs)"
  by (induction tgs) (simp_all add: entries_def)

lemma delete_nth:
  "distinct (map fst xs) \<Longrightarrow> j < length xs \<Longrightarrow> fst (xs ! j) = k \<Longrightarrow>
     AList.delete k xs = take j xs @ drop (Suc j) xs"
proof (induction xs arbitrary: j)
  case Nil
  then show ?case by simp
next
  case (Cons x xs)
  show ?case
  proof (cases j)
    case 0
    then have "k \<notin> fst ` set xs" using Cons.prems by auto
    then show ?thesis using 0 Cons.prems by simp
  next
    case (Suc i)
    then have "fst x \<noteq> k" using Cons.prems by (auto simp add: image_iff)
    then show ?thesis using Suc Cons by simp
  qed
qed

lemma combine_Inr_length:
  assumes "distinct (map fst subs)" and "combine cs subs (map fst subs) 0 0 = Inr loss"
  shows "length subs \<le> length cs \<and>
     loss = (\<Sum>i<length subs. weighted_term (cs ! i) (snd (subs ! i)))"
  using assms(2) unfolding combine_keys [OF assms(1)] by (simp split: if_splits)

lemma removal_compute:
  assumes cs: "compute_sub_losses fw m fd v = Inr subs"
    and T: "pretrain_tasks m = PyStrs T" and T': "pretrain_tasks m' = PyStrs T'"
    and rem: "set T' = set T - {t}"
    and agree: "heads_agree_except t m m'"
  shows "compute_sub_losses fw m' fd v = Inr (AList.delete (t @ ''_loss'') subs)"
proof -
  from cs have ok: "tasks_ok fw m fd v task_tags" and subs: "subs = entries fw m fd v task_tags"
    by (simp_all add: compute_sub_losses_iff)
  have act: "active m' tg \<longleftrightarrow> active m tg \<and> tg \<noteq> t" for tg
    using rem by (auto simp add: active_PyStrs [OF T] active_PyStrs [OF T'])
  have same: "sub_loss_of fw m' fd v tg = sub_loss_of fw m fd v tg" if "tg \<noteq> t" for tg
    using sub_loss_of_cong [OF agree] that by blast
  have ok': "tasks_ok fw m' fd v task_tags"
    using ok by (auto simp add: tasks_ok_def act same T' py_in_def)
  have "entries fw m' fd v task_tags =
      map (\<lambda>tg. (tg @ ''_loss'', projr (sub_loss_of fw m fd v tg)))
        (filter (\<lambda>tg. active m tg \<and> tg \<noteq> t) task_tags)"
  proof -
    have f: "active m' = (\<lambda>tg. active m tg \<and> tg \<noteq> t)"
      by (simp add: fun_eq_iff act)
    show ?thesis
      unfolding entries_def f by (rule map_cong) (auto simp add: same)
  qed
  then have "entries fw m' fd v task_tags = AList.delete (t @ ''_loss'') subs"
    by (simp add: subs delete_entries)
  with ok' show ?thesis by (simp add: compute_sub_losses_iff)
qed

lemma sum_butlast:
  fixes f :: "nat \<Rightarrow> real"
  shows "(\<Sum>i<Suc j. f i) - (\<Sum>i<j. f i) = f j"
  by simp

lemma weighted_term_1_less:
  "weighted_term 1 10 < weighted_term 0 10"
proof -
  have "1 + 2 \<le> exp (2 :: real)"
    by (rule exp_ge_add_one_self)
  then have "inverse (exp (2 :: real)) \<le> inverse 3"
    by (intro le_imp_inverse_le) simp_all
  then have a: "exp (- 2 :: real) \<le> 1 / 3"
    by (simp add: exp_minus inverse_eq_divide)
  have "ln (exp 1 + 1 :: real) \<le> exp 1 + 1 - 1"
    by (rule ln_le_minus_one) (simp add: add_pos_pos)
  then have b: "ln (exp 1 + 1 :: real) \<le> 3"
    using exp_le by simp
  have c: "0 < ln (2 :: real)"
    by simp
  have "weighted_term 1 10 = exp (- 2 :: real) * 5 + ln (exp 1 + 1)"
    by (simp add: weighted_term_def)
  moreover have "weighted_term 0 10 = 5 + ln (2 :: real)"
    by (simp add: weighted_term_def)
  ultimately show ?thesis using a b c by linarith
qed

section \<open>Running the model on the small inputs\<close>

lemmas py_defs = getitem_def get_default_def index_def index_last_def py_range_def py_in_def
  py_add_int_def py_mul_int_def attr_def

lemmas demo_defs = scalar_def total_def feat_total_def demo_fw_def demo_graph_def
  demo_encoder_config_def demo_graph_dict_def demo_pred_config_def elems_def

lemma demo_encoder_forward:
  "GeoGNNModel_forward demo_fw demo_encoder (demo_graph x) (demo_graph y) (demo_graph z)
     = Inr (scalar x, scalar (2 * x), scalar x)"
  by (simp add: GeoGNNModel_init_def GeoGNNModel_forward_def demo_encoder_def py_defs demo_defs Let_def)

lemma demo_model_eq:
  "demo_model tasks cs =
     \<lparr> compound_encoder = demo_encoder,
       hidden_size = PyInt 4,
       dropout_rate = PyFloat (1 / 5),
       act = PyStr ''gelu'',
       pretrain_tasks = PyStrs tasks,
       coefs = cs,
       Cm = (if ''Cm'' \<in> set tasks
             then Some \<lparr> Cm_vocab = PyInt 10, Cm_linear = (\<lambda>t. scalar (total t)),
                         Cm_loss = (\<lambda>logits label. \<bar>total logits - total label\<bar>) \<rparr>
             else None),
       Fg_linear = (\<lambda>t. scalar (total t)),
       Fg_loss = (\<lambda>logits label. \<bar>total logits - total label\<bar>),
       Bar = (if ''Bar'' \<in> set tasks
              then Some \<lparr> Bar_vocab = PyInt 10, Bar_mlp_1 = (\<lambda>t. scalar (total t)),
                          Bar_mlp_2 = (\<lambda>t. scalar (total t)),
                          Bar_loss = (\<lambda>logits label. \<bar>total logits - total label\<bar>) \<rparr>
              else None),
       Dar = (if ''Dar'' \<in> set tasks
              then Some \<lparr> Dar_vocab = PyInt 10, Dar_mlp1 = (\<lambda>t. scalar (total t)),
                          Dar_loss = (\<lambda>logits label. \<bar>total logits - total label\<bar>),
                          Dar_mlp2 = (\<lambda>t. scalar (total t)),
                          Dar_loss_extra = (\<lambda>logits label. \<bar>total logits - total label\<bar>) \<rparr>
              else None),
       Blr = (if ''Blr'' \<in> set tasks
              then Some \<lparr> Blr_vocab = PyInt 10, Blr_mlp = (\<lambda>t. scalar (total t)),
                          Blr_loss = (\<lambda>a b. \<bar>total a - total b\<bar>) \<rparr>
              else None),
       Adc = (if ''Adc'' \<in> set tasks
              then Some \<lparr> Adc_vocab = PyInt 10, Adc_mlp = (\<lambda>t. scalar (total t)),
                          Adc_loss = (\<lambda>a b. \<bar>total a - total b\<bar>) \<rparr>
              else None),
       Cl = (if ''Cl'' \<in> set tasks
             then Some \<lparr> Cl_vocab = PyInt 10, Cl_linear = (\<lambda>t. scalar (total t)),
                         Cl_loss = (\<lambda>a b. \<bar>total a - total b\<bar>) \<rparr>
             else None) \<rparr>"
  unfolding demo_model_def GeoPredModel_init_def when_task_def
  by (simp add: py_defs demo_fw_def demo_pred_config_def Let_def if_Inr
        del: if_Inr [symmetric] cong: if_cong)

lemma demo_model_sel:
  "compound_encoder (demo_model tasks cs) = demo_encoder"
  "pretrain_tasks (demo_model tasks cs) = PyStrs tasks"
  "coefs (demo_model tasks cs) = cs"
  by (simp_all add: demo_model_eq)

lemma demo_graph_dict_sel:
  "getitem demo_graph_dict ''atom_bond_graph'' = Inr (demo_graph 1)"
  "getitem demo_graph_dict ''bond_angle_graph'' = Inr (demo_graph 1)"
  "getitem demo_graph_dict ''dihes_angle_graph'' = Inr (demo_graph 1)"
  "getitem demo_graph_dict ''atom_bond_graph_conf_cl_1'' = Inr (demo_graph 2)"
  "getitem demo_graph_dict ''bond_angle_graph_conf_cl_1'' = Inr (demo_graph 2)"
  "getitem demo_graph_dict ''dihes_angle_graph_conf_cl_1'' = Inr (demo_graph 2)"
  "getitem demo_graph_dict ''masked_atom_bond_graph'' = Inr (demo_graph 3)"
  "getitem demo_graph_dict ''masked_bond_angle_graph'' = Inr (demo_graph 3)"
  "getitem demo_graph_dict ''masked_dihes_angle_graph'' = Inr (demo_graph 3)"
  "getitem demo_graph_dict ''masked_atom_bond_graph_conf_cl_1'' = Inr (demo_graph 4)"
  "getitem demo_graph_dict ''masked_bond_angle_graph_conf_cl_1'' = Inr (demo_graph 4)"
  "getitem demo_graph_dict ''masked_dihes_angle_graph_conf_cl_1'' = Inr (demo_graph 4)"
  by (simp_all add: getitem_def demo_graph_dict_def)

lemma demo_encode_views:
  "encode_views demo_fw (demo_model tasks cs) demo_graph_dict =
     Inr (demo_views,
          [(demo_graph 1, demo_graph 1, demo_graph 1), (demo_graph 2, demo_graph 2, demo_graph 2),
           (demo_graph 3, demo_graph 3, demo_graph 3), (demo_graph 4, demo_graph 4, demo_graph 4)])"
  by (simp add: encode_views_def encoder_call_def demo_model_sel demo_graph_dict_sel
        demo_encoder_forward demo_views_def)

lemma demo_feed_dict_sel:
  "getitem (demo_feed_dict a) ''Cm_node_i'' = Inr (IntTensor [1] [0])"
  "getitem (demo_feed_dict a) ''Cm_node_i_conf_cl_1'' = Inr (IntTensor [1] [0])"
  "getitem (demo_feed_dict a) ''Cm_context_id'' = Inr (IntTensor [1] [0])"
  "getitem (demo_feed_dict a) ''Cm_context_id_conf_cl_1'' = Inr (IntTensor [1] [0])"
  "getitem (demo_feed_dict a) ''Ba_node_i'' = Inr (IntTensor [1] [0])"
  "getitem (demo_feed_dict a) ''Ba_node_i_conf_cl_1'' = Inr (IntTensor [1] [0])"
  "getitem (demo_feed_dict a) ''Ba_node_j'' = Inr (IntTensor [1] [0])"
  "getitem (demo_feed_dict a) ''Ba_node_j_conf_cl_1'' = Inr (IntTensor [1] [0])"
  "getitem (demo_feed_dict a) ''Ba_node_k'' = Inr (IntTensor [1] [0])"
  "getitem (demo_feed_dict a) ''Ba_node_k_conf_cl_1'' = Inr (IntTensor [1] [0])"
  "getitem (demo_feed_dict a) ''Ba_bond_angle'' = Inr (FloatTensor [1] [a])"
  "getitem (demo_feed_dict a) ''Ba_bond_angle_conf_cl_1'' = Inr (FloatTensor [1] [a])"
  "getitem (demo_feed_dict a) ''Da_node_i'' = Inr (IntTensor [1] [0])"
  "getitem (demo_feed_dict a) ''Da_node_i_conf_cl_1'' = Inr (IntTensor [1] [0])"
  "getitem (demo_feed_dict a) ''Da_node_j'' = Inr (IntTensor [1] [0])"
  "getitem (demo_feed_dict a) ''Da_node_j_conf_cl_1'' = Inr (IntTensor [1] [0])"
  "getitem (demo_feed_dict a) ''Da_node_k'' = Inr (IntTensor [1] [0])"
  "getitem (demo_feed_dict a) ''Da_node_k_conf_cl_1'' = Inr (IntTensor [1] [0])"
  "getitem (demo_feed_dict a) ''Da_node_l'' = Inr (IntTensor [1] [0])"
  "getitem (demo_feed_dict a) ''Da_node_l_conf_cl_1'' = Inr (IntTensor [1] [0])"
  "getitem (demo_feed_dict a) ''Da_bond_angle'' = Inr (FloatTensor [1] [a])"
  "getitem (demo_feed_dict a) ''Da_bond_angle_conf_cl_1'' = Inr (FloatTensor [1] [a])"
  "getitem (demo_feed_dict a) ''Da_node_i_extra'' = Inr (IntTensor [1] [0])"
  "getitem (demo_feed_dict a) ''Da_node_i_extra_conf_cl_1'' = Inr (IntTensor [1] [0])"
  "getitem (demo_feed_dict a) ''Da_node_j_extra'' = Inr (IntTensor [1] [0])"
  "getitem (demo_feed_dict a) ''Da_node_j_extra_conf_cl_1'' = Inr (IntTensor [1] [0])"
  "getitem (demo_feed_dict a) ''Da_node_k_extra'' = Inr (IntTensor [1] [0])"
  "getitem (demo_feed_dict a) ''Da_node_k_extra_conf_cl_1'' = Inr (IntTensor [1] [0])"
  "getitem (demo_feed_dict a) ''Da_node_l_extra'' = Inr (IntTensor [1] [0])"
  "getitem (demo_feed_dict a) ''Da_node_l_extra_conf_cl_1'' = Inr (IntTensor [1] [0])"
  "getitem (demo_feed_dict a) ''Da_bond_angle_extra'' = Inr (FloatTensor [1] [a])"
  "getitem (demo_feed_dict a) ''Da_bond_angle_extra_conf_cl_1'' = Inr (FloatTensor [1] [a])"
  "getitem (demo_feed_dict a) ''Bl_node_i'' = Inr (IntTensor [1] [0])"
  "getitem (demo_feed_dict a) ''Bl_node_i_conf_cl_1'' = Inr (IntTensor [1] [0])"
  "getitem (demo_feed_dict a) ''Bl_node_j'' = Inr (IntTensor [1] [0])"
  "getitem (demo_feed_dict a) ''Bl_node_j_conf_cl_1'' = Inr (IntTensor [1] [0])"
  "getitem (demo_feed_dict a) ''Bl_bond_length'' = Inr (scalar 1)"
  "getitem (demo_feed_dict a) ''Bl_bond_length_conf_cl_1'' = Inr (scalar 1)"
  "getitem (demo_feed_dict a) ''Ad_node_i'' = Inr (IntTensor [1] [0])"
  "getitem (demo_feed_dict a) ''Ad_node_i_conf_cl_1'' = Inr (IntTensor [1] [0])"
  "getitem (demo_feed_dict a) ''Ad_node_j'' = Inr (IntTensor [1] [0])"
  "getitem (demo_feed_dict a) ''Ad_node_j_conf_cl_1'' = Inr (IntTensor [1] [0])"
  "getitem (demo_feed_dict a) ''Ad_atom_dist'' = Inr (scalar 1)"
  "getitem (demo_feed_dict a) ''Ad_atom_dist_conf_cl_1'' = Inr (scalar 1)"
  "getitem (demo_feed_dict a) ''Fg_morgan'' = Inr (scalar 0)"
  "getitem (demo_feed_dict a) ''Fg_daylight'' = Inr (scalar 0)"
  "getitem (demo_feed_dict a) ''Fg_maccs'' = Inr (scalar 0)"
  "getitem (demo_feed_dict a) ''fp_score'' = Inr (scalar 1)"
  "getitem (demo_feed_dict a) ''rms'' = Inr (scalar 1)"
  by (code_simp)+

lemma demo_heads:
  "Cm (demo_model tasks cs) = (if ''Cm'' \<in> set tasks
             then Some \<lparr> Cm_vocab = PyInt 10, Cm_linear = (\<lambda>t. scalar (total t)),
                         Cm_loss = (\<lambda>logits label. \<bar>total logits - total label\<bar>) \<rparr>
             else None)"
  "Fg_linear (demo_model tasks cs) = (\<lambda>t. scalar (total t))"
  "Fg_loss (demo_model tasks cs) = (\<lambda>logits label. \<bar>total logits - total label\<bar>)"
  "Bar (demo_model tasks cs) = (if ''Bar'' \<in> set tasks
              then Some \<lparr> Bar_vocab = PyInt 10, Bar_mlp_1 = (\<lambda>t. scalar (total t)),
                          Bar_mlp_2 = (\<lambda>t. scalar (total t)),
                          Bar_loss = (\<lambda>logits label. \<bar>total logits - total label\<bar>) \<rparr>
              else None)"
  "Dar (demo_model tasks cs) = (if ''Dar'' \<in> set tasks
              then Some \<lparr> Dar_vocab = PyInt 10, Dar_mlp1 = (\<lambda>t. scalar (total t)),
                          Dar_loss = (\<lambda>logits label. \<bar>total logits - total label\<bar>),
                          Dar_mlp2 = (\<lambda>t. scalar (total t)),
                          Dar_loss_extra = (\<lambda>logits label. \<bar>total logits - total label\<bar>) \<rparr>
              else None)"
  "Blr (demo_model tasks cs) = (if ''Blr'' \<in> set tasks
              then Some \<lparr> Blr_vocab = PyInt 10, Blr_mlp = (\<lambda>t. scalar (total t)),
                          Blr_loss = (\<lambda>a b. \<bar>total a - total b\<bar>) \<rparr>
              else None)"
  "Adc (demo_model tasks cs) = (if ''Adc'' \<in> set tasks
              then Some \<lparr> Adc_vocab = PyInt 10, Adc_mlp = (\<lambda>t. scalar (total t)),
                          Adc_loss = (\<lambda>a b. \<bar>total a - total b\<bar>) \<rparr>
              else None)"
  by (simp_all add: demo_model_eq)

lemmas demo_eval = demo_views_def demo_feed_dict_sel demo_fw_def scalar_def total_def elems_def
  node_of_def graph_of_def sum4_def attr_def Let_def

lemma demo_Cm: "''Cm'' \<in> set tasks \<Longrightarrow>
    Cm_sub_loss demo_fw (demo_model tasks cs) (demo_feed_dict (pi / 2)) demo_views = Inr 10"
  by (simp add: Cm_sub_loss_def Cm_call_def get_Cm_loss_def demo_heads demo_eval)

lemma demo_Fg:
  "Fg_sub_loss demo_fw (demo_model tasks cs) (demo_feed_dict (pi / 2)) demo_views = Inr 10"
  by (simp add: Fg_sub_loss_def get_Fg_loss_def demo_heads demo_eval)

lemma demo_dist_id: "dist_id (FloatTensor s [pi / 2]) (PyInt 10) = Inr (IntTensor s [5])"
  by (simp add: dist_id_def tensor_mul_py_def tensor_div_def cast_int64_def elems_def)

lemma demo_Bar: "''Bar'' \<in> set tasks \<Longrightarrow>
    Bar_sub_loss demo_fw (demo_model tasks cs) (demo_feed_dict (pi / 2)) demo_views = Inr 22"
  by (simp add: Bar_sub_loss_def Bar_call_def get_Bar_loss_def demo_heads demo_dist_id demo_eval)

lemma demo_Dar: "''Dar'' \<in> set tasks \<Longrightarrow>
    Dar_sub_loss demo_fw (demo_model tasks cs) (demo_feed_dict (pi / 2)) demo_views = Inr 80"
  by (simp add: Dar_sub_loss_def Dar_call_def get_Dar_loss_def demo_heads demo_dist_id demo_eval)

lemma demo_Blr: "''Blr'' \<in> set tasks \<Longrightarrow>
    Blr_sub_loss demo_fw (demo_model tasks cs) (demo_feed_dict (pi / 2)) demo_views = Inr 16"
  by (simp add: Blr_sub_loss_def Blr_call_def get_Blr_loss_def demo_heads demo_eval)

lemma demo_Adc: "''Adc'' \<in> set tasks \<Longrightarrow>
    Adc_sub_loss demo_fw (demo_model tasks cs) (demo_feed_dict (pi / 2)) demo_views = Inr 16"
  by (simp add: Adc_sub_loss_def Adc_call_def get_Adc_loss_def demo_heads demo_eval)

lemma demo_Cl:
  "Cl_sub_loss demo_fw (demo_model tasks cs) (demo_feed_dict (pi / 2)) demo_views = Inr 17"
  by (simp add: Cl_sub_loss_def Cl_call_def get_Cl_loss_def demo_eval)

lemma demo_active: "active (demo_model tasks cs) tg \<longleftrightarrow> tg \<in> set tasks"
  by (simp add: active_def demo_model_sel py_in_def)

lemma demo_sub_loss_of:
  assumes "tg \<in> set task_tags" and "tg \<in> set tasks"
  shows "sub_loss_of demo_fw (demo_model tasks cs) (demo_feed_dict (pi / 2)) demo_views tg
           = Inr (demo_value tg)"
proof -
  from assms(1) consider "tg = ''Cm''" | "tg = ''Fg''" | "tg = ''Bar''" | "tg = ''Dar''"
    | "tg = ''Blr''" | "tg = ''Adc''" | "tg = ''Cl''"
    by (auto simp add: task_tags_def)
  then show ?thesis
    using assms(2)
    by cases (simp_all add: sub_loss_of_def demo_value_def demo_Cm demo_Fg demo_Bar demo_Dar
        demo_Blr demo_Adc demo_Cl)
qed

lemma demo_compute:
  "compute_sub_losses demo_fw (demo_model tasks cs) (demo_feed_dict (pi / 2)) demo_views =
     Inr (map (\<lambda>tg. (tg @ ''_loss'', demo_value tg)) (filter (\<lambda>tg. tg \<in> set tasks) task_tags))"
proof -
  have ok: "tasks_ok demo_fw (demo_model tasks cs) (demo_feed_dict (pi / 2)) demo_views task_tags"
    by (auto simp add: tasks_ok_def demo_active demo_sub_loss_of demo_model_sel py_in_def)
  have en: "entries demo_fw (demo_model tasks cs) (demo_feed_dict (pi / 2)) demo_views task_tags =
      map (\<lambda>tg. (tg @ ''_loss'', demo_value tg)) (filter (\<lambda>tg. tg \<in> set tasks) task_tags)"
  proof -
    have act: "active (demo_model tasks cs) = (\<lambda>tg. tg \<in> set tasks)"
      by (simp add: fun_eq_iff demo_active)
    show ?thesis
      unfolding entries_def act by (rule map_cong) (auto simp add: demo_sub_loss_of)
  qed
  show ?thesis
    using ok en by (simp add: compute_sub_losses_iff)
qed

lemmas combine_eval = index_def getitem_def Let_def

lemma demo_forward_Fg:
  "forward demo_fw (demo_model [''Fg''] [0, 0, 0, 0, 0, 0, 0, 0]) demo_graph_dict
      (demo_feed_dict (pi / 2)) True =
   Inr (LossSubCoefs (5 + ln 2) [(''Fg_loss'', 10)] [0, 0, 0, 0, 0, 0, 0, 0])"
  by (simp add: forward_def demo_encode_views demo_compute demo_model_sel task_tags_def
        demo_value_def combine_eval)

lemma demo_init:
  "GeoPredModel_init demo_fw (demo_pred_config tasks) demo_encoder = Inr (demo_model tasks (replicate 8 0))"
  unfolding demo_model_def GeoPredModel_init_def when_task_def
  by (simp add: py_defs demo_fw_def demo_pred_config_def Let_def if_Inr cong: if_cong)

lemma demo_compute_all:
  "compute_sub_losses demo_fw (demo_model task_tags cs) (demo_feed_dict (pi / 2)) demo_views =
     Inr demo_sub_losses"
  by (simp add: demo_compute task_tags_def demo_value_def demo_sub_losses_def)

lemma demo_forward_all:
  "forward demo_fw (demo_model task_tags (replicate 8 0)) demo_graph_dict (demo_feed_dict (pi / 2))
      True =
   Inr (LossSubCoefs
     (\<Sum>i<length demo_sub_losses. weighted_term (replicate 8 0 ! i) (snd (demo_sub_losses ! i)))
     demo_sub_losses (replicate 8 0))"
  using forward_TrueI [OF demo_encode_views demo_compute_all]
  by (simp add: demo_model_sel demo_sub_losses_def)

lemma demo_feed_fp:
  "demo_feed_dict a ''fp_score'' = Some (scalar 1)"
  "demo_feed_dict a ''rms'' = Some (scalar 1)"
  by code_simp+

lemma demo_forward_Cl:
  "forward demo_fw (demo_model [''Cl''] (replicate 8 0)) demo_graph_dict (demo_feed_dict (pi / 2))
      True =
   Inr (LossSubCoefs (17 / 2 + ln 2) [(''Cl_loss'', 17)] (replicate 8 0))"
  using forward_TrueI [OF demo_encode_views [of "[''Cl'']" "replicate 8 0"] demo_compute]
  by (simp add: demo_model_sel task_tags_def demo_value_def weighted_term_def)

lemma demo_pred_config_Cl_vocab:
  "(demo_pred_config tasks)(''Cl_vocab'' \<mapsto> PyInt 10) = demo_pred_config tasks"
  by (rule ext) (simp add: demo_pred_config_def)

lemma demo_forward_Cm_Fg:
  "forward demo_fw (demo_model [''Cm'', ''Fg''] demo_coefs) demo_graph_dict
      (demo_feed_dict (pi / 2)) True =
   Inr (LossSubCoefs (weighted_term 0 10 + weighted_term 1 10)
          [(''Cm_loss'', 10), (''Fg_loss'', 10)] demo_coefs)"
  using forward_TrueI [OF demo_encode_views [of "[''Cm'', ''Fg'']" demo_coefs] demo_compute]
  by (simp add: demo_model_sel task_tags_def demo_value_def demo_coefs_def numeral_2_eq_2)

lemma demo_forward_Fg_coefs:
  "forward demo_fw (demo_model [''Fg''] demo_coefs) demo_graph_dict
      (demo_feed_dict (pi / 2)) True =
   Inr (LossSubCoefs (weighted_term 0 10) [(''Fg_loss'', 10)] demo_coefs)"
  using forward_TrueI [OF demo_encode_views [of "[''Fg'']" demo_coefs] demo_compute]
  by (simp add: demo_model_sel task_tags_def demo_value_def demo_coefs_def)

lemma demo_agree_Cm:
  "heads_agree_except ''Cm'' (demo_model [''Cm'', ''Fg''] cs) (demo_model [''Fg''] cs)"
  by (simp add: heads_agree_except_def demo_model_eq)

lemma demo_agree_Fg:
  "heads_agree_except ''Fg'' (demo_model [''Cm'', ''Fg''] cs) (demo_model [''Cm''] cs)"
  by (simp add: heads_agree_except_def demo_model_eq)

section \<open>The weighted sum of the sub-losses\<close>

text \<open>
  Claim C1. Whenever \<^verbatim>\<open>GeoPredModel.forward\<close> returns, the total loss is the sum over
  the active tasks, in the order of \<open>task_tags\<close>, of
  \<open>exp (- 2 * coef i) / 2 * sub_loss i + ln (exp (coef i) + 1)\<close>, where \<open>i\<close> is the position of
  the task's entry in \<open>sub_losses\<close>; the same loss is returned without the sub-losses. With
  a single active task and a coefficient \<open>0\<close> the loss is \<open>0.5 * sub_loss + ln 2\<close>.
\<close>

theorem total_loss_weighted_sum:
  assumes "forward fw m graph_dict feed_dict True = Inr (LossSubCoefs loss sub_losses cs)"
  shows "cs = coefs m \<and>
    map fst sub_losses = map (\<lambda>tg. tg @ ''_loss'') (filter (active m) task_tags) \<and>
    loss = (\<Sum>i<length sub_losses.
              exp (- 2 * cs ! i) / 2 * snd (sub_losses ! i) + ln (exp (cs ! i) + 1)) \<and>
    forward fw m graph_dict feed_dict False = Inr (Loss loss) \<and>
    (length sub_losses = 1 \<and> cs ! 0 = 0 \<longrightarrow> loss = 0.5 * snd (sub_losses ! 0) + ln 2)"
proof -
  from assms obtain v calls where
    ev: "encode_views fw m graph_dict = Inr (v, calls)" and
    cs: "compute_sub_losses fw m feed_dict v = Inr sub_losses" and
    cb: "combine (coefs m) sub_losses (map fst sub_losses) 0 0 = Inr loss" and
    c: "cs = coefs m"
    unfolding forward_True_iff by blast
  have subs: "sub_losses = entries fw m feed_dict v task_tags"
    using cs by (simp add: compute_sub_losses_iff)
  have keys: "map fst sub_losses = map (\<lambda>tg. tg @ ''_loss'') (filter (active m) task_tags)"
    by (simp add: subs entries_keys)
  have dist: "distinct (map fst sub_losses)"
    unfolding subs by (rule entries_distinct [OF task_tags_distinct])
  have sum: "loss = (\<Sum>i<length sub_losses. weighted_term (cs ! i) (snd (sub_losses ! i)))"
    using cb unfolding combine_keys [OF dist] c by (simp split: if_splits)
  have f: "forward fw m graph_dict feed_dict False = Inr (Loss loss)"
    unfolding forward_False_iff using ev cs cb by blast
  show ?thesis
    using c keys sum f by (auto simp add: weighted_term_def)
qed

theorem total_loss_weighted_sum_witness:
  "forward demo_fw (demo_model [''Fg''] [0, 0, 0, 0, 0, 0, 0, 0]) demo_graph_dict
      (demo_feed_dict (pi / 2)) True =
     Inr (LossSubCoefs (5 + ln 2) [(''Fg_loss'', 10)] [0, 0, 0, 0, 0, 0, 0, 0]) \<and>
   forward demo_fw (demo_model [''Fg''] [0, 0, 0, 0, 0, 0, 0, 0]) demo_graph_dict
      (demo_feed_dict (pi / 2)) False = Inr (Loss (5 + ln 2)) \<and>
   (5 + ln 2 :: real) = 0.5 * 10 + ln 2"
  using total_loss_weighted_sum [OF demo_forward_Fg] demo_forward_Fg by simp

section \<open>Four losses per task, four encoder calls\<close>

text \<open>
  Claim C2. Whenever \<^verbatim>\<open>GeoPredModel.forward\<close> returns, the encoder has been invoked
  exactly four times, on the graphs stored under \<open>view_keys\<close>, giving the canonical, the
  second-conformer, the masked and the masked second-conformer representations; and the
  sub-loss of every active task other than Cl is four-fold: the sum of that task's loss on
  the canonical unmasked, canonical masked, augmented unmasked and augmented masked
  representation.
\<close>

theorem sub_loss_four_calls:
  assumes "forward fw m graph_dict feed_dict True = Inr (LossSubCoefs loss sub_losses cs)"
  shows "\<exists>v calls. encode_views fw m graph_dict = Inr (v, calls) \<and>
    length calls = 4 \<and>
    map (\<lambda>(g1, g2, g3). GeoGNNModel_forward fw (compound_encoder m) g1 g2 g3) calls =
      [Inr (canonical v), Inr (conf_cl_1 v), Inr (masked v), Inr (masked_conf_cl_1 v)] \<and>
    map (\<lambda>(k1, k2, k3). (graph_dict k1, graph_dict k2, graph_dict k3)) view_keys =
      map (\<lambda>(g1, g2, g3). (Some g1, Some g2, Some g3)) calls \<and>
    (active m ''Cm'' \<longrightarrow> (\<exists>l. map_of sub_losses ''Cm_loss'' = Some l \<and>
        four_fold (Cm_call fw m feed_dict) node_of v l)) \<and>
    (active m ''Fg'' \<longrightarrow> (\<exists>l. map_of sub_losses ''Fg_loss'' = Some l \<and>
        four_fold (\<lambda>sfx. get_Fg_loss fw m feed_dict) graph_of v l)) \<and>
    (active m ''Bar'' \<longrightarrow> (\<exists>l. map_of sub_losses ''Bar_loss'' = Some l \<and>
        four_fold (Bar_call fw m feed_dict) node_of v l)) \<and>
    (active m ''Dar'' \<longrightarrow> (\<exists>l. map_of sub_losses ''Dar_loss'' = Some l \<and>
        four_fold (Dar_call fw m feed_dict) node_of v l)) \<and>
    (active m ''Blr'' \<longrightarrow> (\<exists>l. map_of sub_losses ''Blr_loss'' = Some l \<and>
        four_fold (Blr_call fw m feed_dict) node_of v l)) \<and>
    (active m ''Adc'' \<longrightarrow> (\<exists>l. map_of sub_losses ''Adc_loss'' = Some l \<and>
        four_fold (Adc_call fw m feed_dict) node_of v l))"
proof -
  from assms obtain v calls where
    ev: "encode_views fw m graph_dict = Inr (v, calls)" and
    cs: "compute_sub_losses fw m feed_dict v = Inr sub_losses"
    unfolding forward_True_iff by blast
  note enc = encode_views_Inr [OF ev]
  have Cm: "\<exists>l. map_of sub_losses ''Cm_loss'' = Some l \<and>
      four_fold (Cm_call fw m feed_dict) node_of v l" if "active m ''Cm''"
    using sub_entry [OF cs _ that]
    by (auto simp add: task_tags_def sub_loss_of_def Cm_sub_loss_def intro: four_foldI)
  have Fg: "\<exists>l. map_of sub_losses ''Fg_loss'' = Some l \<and>
      four_fold (\<lambda>sfx. get_Fg_loss fw m feed_dict) graph_of v l" if "active m ''Fg''"
    using sub_entry [OF cs _ that]
    by (auto simp add: task_tags_def sub_loss_of_def Fg_sub_loss_def intro: four_foldI)
  have Bar: "\<exists>l. map_of sub_losses ''Bar_loss'' = Some l \<and>
      four_fold (Bar_call fw m feed_dict) node_of v l" if "active m ''Bar''"
    using sub_entry [OF cs _ that]
    by (auto simp add: task_tags_def sub_loss_of_def Bar_sub_loss_def intro: four_foldI)
  have Dar: "\<exists>l. map_of sub_losses ''Dar_loss'' = Some l \<and>
      four_fold (Dar_call fw m feed_dict) node_of v l" if "active m ''Dar''"
    using sub_entry [OF cs _ that]
    by (auto simp add: task_tags_def sub_loss_of_def Dar_sub_loss_def intro: four_foldI)
  have Blr: "\<exists>l. map_of sub_losses ''Blr_loss'' = Some l \<and>
      four_fold (Blr_call fw m feed_dict) node_of v l" if "active m ''Blr''"
    using sub_entry [OF cs _ that]
    by (auto simp add: task_tags_def sub_loss_of_def Blr_sub_loss_def intro: four_foldI)
  have Adc: "\<exists>l. map_of sub_losses ''Adc_loss'' = Some l \<and>
      four_fold (Adc_call fw m feed_dict) node_of v l" if "active m ''Adc''"
    using sub_entry [OF cs _ that]
    by (auto simp add: task_tags_def sub_loss_of_def Adc_sub_loss_def intro: four_foldI)
  show ?thesis
    by (intro exI [of _ v] exI [of _ calls] conjI impI)
       (simp_all add: ev enc Cm Fg Bar Dar Blr Adc)
qed

theorem sub_loss_four_calls_witness:
  "forward demo_fw (demo_model task_tags (replicate 8 0)) demo_graph_dict (demo_feed_dict (pi / 2))
      True =
     Inr (LossSubCoefs
       (\<Sum>i<length demo_sub_losses. weighted_term (replicate 8 0 ! i) (snd (demo_sub_losses ! i)))
       demo_sub_losses (replicate 8 0)) \<and>
   (\<exists>calls. encode_views demo_fw (demo_model task_tags (replicate 8 0)) demo_graph_dict =
        Inr (demo_views, calls) \<and> length calls = 4) \<and>
   four_fold (Cm_call demo_fw (demo_model task_tags (replicate 8 0)) (demo_feed_dict (pi / 2)))
     node_of demo_views 10 \<and>
   four_fold (Dar_call demo_fw (demo_model task_tags (replicate 8 0)) (demo_feed_dict (pi / 2)))
     node_of demo_views 80"
proof -
  have a: "active (demo_model task_tags (replicate 8 0)) ''Cm''"
    "active (demo_model task_tags (replicate 8 0)) ''Dar''"
    by (simp_all add: demo_active task_tags_def)
  have s: "map_of demo_sub_losses ''Cm_loss'' = Some 10" "map_of demo_sub_losses ''Dar_loss'' = Some 80"
    by (simp_all add: demo_sub_losses_def)
  from sub_loss_four_calls [OF demo_forward_all] a s
  show ?thesis
    using demo_forward_all by (auto simp add: demo_encode_views)
qed

section \<open>The index of a task's coefficient\<close>

text \<open>
  Claim C9. The entries of \<open>sub_losses\<close> are those of the active tasks in the order Cm, Fg,
  Bar, Dar, Blr, Adc, Cl, so there are at most seven; the loop weighs the entry at position
  \<open>i\<close> with \<open>coefs[i]\<close>, and with the eight coefficients of the constructor no index is out of
  range: the loop returns.
\<close>

theorem coefs_index_by_position:
  assumes "length (coefs m) = 8"
    and "compute_sub_losses fw m feed_dict v = Inr sub_losses"
  shows "map fst sub_losses = map (\<lambda>tg. tg @ ''_loss'') (filter (active m) task_tags) \<and>
    length sub_losses \<le> 7 \<and>
    (\<forall>i<length sub_losses. index (coefs m) i = Inr (coefs m ! i)) \<and>
    combine (coefs m) sub_losses (map fst sub_losses) 0 0 =
      Inr (\<Sum>i<length sub_losses. weighted_term (coefs m ! i) (snd (sub_losses ! i)))"
proof -
  have subs: "sub_losses = entries fw m feed_dict v task_tags"
    using assms(2) by (simp add: compute_sub_losses_iff)
  have len: "length sub_losses \<le> 7"
    unfolding subs by (rule entries_length)
  have dist: "distinct (map fst sub_losses)"
    unfolding subs by (rule entries_distinct [OF task_tags_distinct])
  have keys: "map fst sub_losses = map (\<lambda>tg. tg @ ''_loss'') (filter (active m) task_tags)"
    by (simp add: subs entries_keys)
  have idx: "\<forall>i<length sub_losses. index (coefs m) i = Inr (coefs m ! i)"
    using len assms(1) by (simp add: index_def)
  have cb: "combine (coefs m) sub_losses (map fst sub_losses) 0 0 =
      Inr (\<Sum>i<length sub_losses. weighted_term (coefs m ! i) (snd (sub_losses ! i)))"
    unfolding combine_keys [OF dist] using len assms(1) by simp
  show ?thesis using keys len idx cb by blast
qed

theorem coefs_index_by_position_witness:
  "GeoPredModel_init demo_fw (demo_pred_config task_tags) demo_encoder =
      Inr (demo_model task_tags (replicate 8 0)) \<and>
   length (coefs (demo_model task_tags (replicate 8 0))) = 8 \<and>
   compute_sub_losses demo_fw (demo_model task_tags (replicate 8 0)) (demo_feed_dict (pi / 2))
      demo_views = Inr demo_sub_losses \<and>
   length demo_sub_losses = 7 \<and>
   combine (coefs (demo_model task_tags (replicate 8 0))) demo_sub_losses
      (map fst demo_sub_losses) 0 0 =
     Inr (\<Sum>i<length demo_sub_losses.
            weighted_term (coefs (demo_model task_tags (replicate 8 0)) ! i)
              (snd (demo_sub_losses ! i)))"
proof -
  have l: "length (coefs (demo_model task_tags (replicate 8 0))) = 8"
    by (simp add: demo_model_sel)
  have n: "length demo_sub_losses = 7"
    by (simp add: demo_sub_losses_def)
  show ?thesis
    using coefs_index_by_position [OF l demo_compute_all] l n demo_compute_all
      demo_init [of task_tags]
    by blast
qed

section \<open>The contrastive loss\<close>

text \<open>
  Claim C3, as stated, fails: the two calls of the contrastive loss do not use the same
  pair of representations with the roles swapped. On the small inputs, with a loss that
  tells its two arguments apart, the Cl sub-loss is \<open>17\<close>, while the loss of the
  augmented-unmasked and canonical-masked pair taken in both directions is \<open>15\<close>.
\<close>

theorem Cl_same_pair_counterexample:
  "forward demo_fw (demo_model [''Cl''] (replicate 8 0)) demo_graph_dict (demo_feed_dict (pi / 2))
      True = Inr (LossSubCoefs (17 / 2 + ln 2) [(''Cl_loss'', 17)] (replicate 8 0)) \<and>
   encode_views demo_fw (demo_model [''Cl''] (replicate 8 0)) demo_graph_dict =
     Inr (demo_views,
          [(demo_graph 1, demo_graph 1, demo_graph 1), (demo_graph 2, demo_graph 2, demo_graph 2),
           (demo_graph 3, demo_graph 3, demo_graph 3), (demo_graph 4, demo_graph 4, demo_graph 4)]) \<and>
   demo_feed_dict (pi / 2) ''fp_score'' = Some (scalar 1) \<and>
   demo_feed_dict (pi / 2) ''rms'' = Some (scalar 1) \<and>
   get_Cl_loss demo_fw (demo_model [''Cl''] (replicate 8 0))
        (normalize_axis1 demo_fw (graph_of (conf_cl_1 demo_views)))
        (normalize_axis1 demo_fw (graph_of (masked demo_views))) (scalar 1) (Some (scalar 1))
     + get_Cl_loss demo_fw (demo_model [''Cl''] (replicate 8 0))
        (normalize_axis1 demo_fw (graph_of (masked demo_views)))
        (normalize_axis1 demo_fw (graph_of (conf_cl_1 demo_views))) (scalar 1) (Some (scalar 1))
     = 15"
proof -
  note fp = demo_feed_fp [of "pi / 2"]
  have v: "get_Cl_loss demo_fw (demo_model [''Cl''] (replicate 8 0))
        (normalize_axis1 demo_fw (graph_of (conf_cl_1 demo_views)))
        (normalize_axis1 demo_fw (graph_of (masked demo_views))) (scalar 1) (Some (scalar 1))
     + get_Cl_loss demo_fw (demo_model [''Cl''] (replicate 8 0))
        (normalize_axis1 demo_fw (graph_of (masked demo_views)))
        (normalize_axis1 demo_fw (graph_of (conf_cl_1 demo_views))) (scalar 1) (Some (scalar 1))
     = 15"
    by (simp add: get_Cl_loss_def demo_eval)
  show ?thesis
    using demo_forward_Cl demo_encode_views fp v by blast
qed

text \<open>
  Claim C3, amended. When Cl is active and \<^verbatim>\<open>forward\<close> returns, the Cl sub-loss is the
  sum of two calls of the weighted contrastive loss on L2-normalized graph representations,
  both with \<open>fp_score\<close> and \<open>rms\<close>: the first on the augmented-unmasked and the
  canonical-masked representation, the second on the canonical-unmasked and the
  augmented-masked representation.
\<close>

theorem Cl_sub_loss_cross_pairs:
  assumes "forward fw m graph_dict feed_dict True = Inr (LossSubCoefs loss sub_losses cs)"
    and "active m ''Cl''"
  shows "\<exists>v calls fp_score rms.
    encode_views fw m graph_dict = Inr (v, calls) \<and>
    feed_dict ''fp_score'' = Some fp_score \<and> feed_dict ''rms'' = Some rms \<and>
    map_of sub_losses ''Cl_loss'' =
      Some (get_Cl_loss fw m (normalize_axis1 fw (graph_of (conf_cl_1 v)))
              (normalize_axis1 fw (graph_of (masked v))) fp_score (Some rms)
          + get_Cl_loss fw m (normalize_axis1 fw (graph_of (canonical v)))
              (normalize_axis1 fw (graph_of (masked_conf_cl_1 v))) fp_score (Some rms))"
proof -
  from assms(1) obtain v calls where
    ev: "encode_views fw m graph_dict = Inr (v, calls)" and
    cs: "compute_sub_losses fw m feed_dict v = Inr sub_losses"
    unfolding forward_True_iff by blast
  from sub_entry [OF cs _ assms(2)] obtain l where
    l: "Cl_sub_loss fw m feed_dict v = Inr l" and e: "map_of sub_losses ''Cl_loss'' = Some l"
    by (auto simp add: task_tags_def sub_loss_of_def)
  from l obtain fp rms where
    "feed_dict ''fp_score'' = Some fp" "feed_dict ''rms'' = Some rms"
    "l = get_Cl_loss fw m (normalize_axis1 fw (graph_of (conf_cl_1 v)))
              (normalize_axis1 fw (graph_of (masked v))) fp (Some rms)
          + get_Cl_loss fw m (normalize_axis1 fw (graph_of (canonical v)))
              (normalize_axis1 fw (graph_of (masked_conf_cl_1 v))) fp (Some rms)"
    unfolding Cl_sub_loss_eq_Inr by blast
  with ev e show ?thesis by blast
qed

theorem Cl_sub_loss_cross_pairs_witness:
  "forward demo_fw (demo_model [''Cl''] (replicate 8 0)) demo_graph_dict (demo_feed_dict (pi / 2))
      True = Inr (LossSubCoefs (17 / 2 + ln 2) [(''Cl_loss'', 17)] (replicate 8 0)) \<and>
   active (demo_model [''Cl''] (replicate 8 0)) ''Cl'' \<and>
   (17 :: real) =
     get_Cl_loss demo_fw (demo_model [''Cl''] (replicate 8 0))
        (normalize_axis1 demo_fw (graph_of (conf_cl_1 demo_views)))
        (normalize_axis1 demo_fw (graph_of (masked demo_views))) (scalar 1) (Some (scalar 1))
     + get_Cl_loss demo_fw (demo_model [''Cl''] (replicate 8 0))
        (normalize_axis1 demo_fw (graph_of (canonical demo_views)))
        (normalize_axis1 demo_fw (graph_of (masked_conf_cl_1 demo_views))) (scalar 1)
        (Some (scalar 1))"
proof -
  have a: "active (demo_model [''Cl''] (replicate 8 0)) ''Cl''"
    by (simp add: demo_active)
  note fp = demo_feed_fp [of "pi / 2"]
  from Cl_sub_loss_cross_pairs [OF demo_forward_Cl a] fp
  show ?thesis
    using demo_forward_Cl a by (auto simp add: demo_encode_views)
qed

section \<open>The head of the contrastive task\<close>

text \<open>
  Claim C10. When Cl is active the constructor builds \<open>Cl_linear\<close> (an MLP) and \<open>Cl_loss\<close>
  (a smooth L1 loss) and stores \<open>Cl_vocab\<close>, but \<^verbatim>\<open>forward\<close> never reads them: replacing
  the whole head of Cl leaves the result of \<^verbatim>\<open>forward\<close> unchanged, two values of
  \<open>Cl_vocab\<close> in the configuration give models with the same \<^verbatim>\<open>forward\<close>, and the Cl
  sub-loss is determined by the graph representations and the entries \<open>fp_score\<close> and
  \<open>rms\<close> of \<open>feed_dict\<close>.
\<close>

theorem Cl_head_never_used:
  "forward fw (m\<lparr>Cl := c\<rparr>) graph_dict feed_dict return_subloss =
     forward fw m graph_dict feed_dict return_subloss \<and>
   (GeoPredModel_init fw cfg enc = Inr m0 \<and> active m0 ''Cl'' \<longrightarrow>
      (\<exists>vocab. cfg ''Cl_vocab'' = Some vocab \<and>
         Cl m0 = Some \<lparr> Cl_vocab = vocab,
           Cl_linear = MLP fw (''Cl_linear'', 0) 2 (hidden_size m0) (act m0)
              (GeoGNNModel.embed_dim enc) (PyInt 1) (dropout_rate m0),
           Cl_loss = SmoothL1Loss fw \<rparr>)) \<and>
   (GeoPredModel_init fw (cfg(''Cl_vocab'' \<mapsto> a)) enc = Inr m1 \<longrightarrow>
      (\<exists>m2. GeoPredModel_init fw (cfg(''Cl_vocab'' \<mapsto> b)) enc = Inr m2 \<and>
         forward fw m2 graph_dict feed_dict return_subloss =
           forward fw m1 graph_dict feed_dict return_subloss)) \<and>
   (graph_of (canonical v') = graph_of (canonical v) \<and>
    graph_of (conf_cl_1 v') = graph_of (conf_cl_1 v) \<and>
    graph_of (masked v') = graph_of (masked v) \<and>
    graph_of (masked_conf_cl_1 v') = graph_of (masked_conf_cl_1 v) \<and>
    feed_dict' ''fp_score'' = feed_dict ''fp_score'' \<and> feed_dict' ''rms'' = feed_dict ''rms'' \<longrightarrow>
      Cl_sub_loss fw m' feed_dict' v' = Cl_sub_loss fw m feed_dict v)"
proof (intro conjI impI)
  show "forward fw (m\<lparr>Cl := c\<rparr>) graph_dict feed_dict return_subloss =
     forward fw m graph_dict feed_dict return_subloss"
    by (rule forward_Cl_update)
next
  assume "GeoPredModel_init fw cfg enc = Inr m0 \<and> active m0 ''Cl''"
  then show "\<exists>vocab. cfg ''Cl_vocab'' = Some vocab \<and>
         Cl m0 = Some \<lparr> Cl_vocab = vocab,
           Cl_linear = MLP fw (''Cl_linear'', 0) 2 (hidden_size m0) (act m0)
              (GeoGNNModel.embed_dim enc) (PyInt 1) (dropout_rate m0),
           Cl_loss = SmoothL1Loss fw \<rparr>"
    using init_Cl_head by blast
next
  assume i: "GeoPredModel_init fw (cfg(''Cl_vocab'' \<mapsto> a)) enc = Inr m1"
  show "\<exists>m2. GeoPredModel_init fw (cfg(''Cl_vocab'' \<mapsto> b)) enc = Inr m2 \<and>
         forward fw m2 graph_dict feed_dict return_subloss =
           forward fw m1 graph_dict feed_dict return_subloss"
    using init_Cl_vocab [OF i, of b] forward_Cl_update by blast
next
  assume "graph_of (canonical v') = graph_of (canonical v) \<and>
    graph_of (conf_cl_1 v') = graph_of (conf_cl_1 v) \<and>
    graph_of (masked v') = graph_of (masked v) \<and>
    graph_of (masked_conf_cl_1 v') = graph_of (masked_conf_cl_1 v) \<and>
    feed_dict' ''fp_score'' = feed_dict ''fp_score'' \<and> feed_dict' ''rms'' = feed_dict ''rms''"
  then show "Cl_sub_loss fw m' feed_dict' v' = Cl_sub_loss fw m feed_dict v"
    using Cl_sub_loss_depends by blast
qed

theorem Cl_head_never_used_witness:
  "GeoPredModel_init demo_fw (demo_pred_config [''Cl'']) demo_encoder =
      Inr (demo_model [''Cl''] (replicate 8 0)) \<and>
   active (demo_model [''Cl''] (replicate 8 0)) ''Cl'' \<and>
   (\<exists>h. Cl (demo_model [''Cl''] (replicate 8 0)) = Some h \<and> Cl_vocab h = PyInt 10) \<and>
   (\<exists>m2. GeoPredModel_init demo_fw ((demo_pred_config [''Cl''])(''Cl_vocab'' \<mapsto> PyInt 99))
             demo_encoder = Inr m2 \<and>
      forward demo_fw m2 demo_graph_dict (demo_feed_dict (pi / 2)) True =
        forward demo_fw (demo_model [''Cl''] (replicate 8 0)) demo_graph_dict
          (demo_feed_dict (pi / 2)) True) \<and>
   Cl_sub_loss demo_fw (demo_model [''Cm''] (replicate 8 0)) (demo_feed_dict 0) demo_views =
     Cl_sub_loss demo_fw (demo_model [''Cl''] (replicate 8 0)) (demo_feed_dict (pi / 2)) demo_views"
proof -
  let ?M = "demo_model [''Cl''] (replicate 8 0)"
  have i: "GeoPredModel_init demo_fw (demo_pred_config [''Cl'']) demo_encoder = Inr ?M"
    by (rule demo_init)
  have i': "GeoPredModel_init demo_fw ((demo_pred_config [''Cl''])(''Cl_vocab'' \<mapsto> PyInt 10))
      demo_encoder = Inr ?M"
    using i by (simp add: demo_pred_config_Cl_vocab)
  have a: "active ?M ''Cl''"
    by (simp add: demo_active)
  have c: "demo_pred_config [''Cl''] ''Cl_vocab'' = Some (PyInt 10)"
    by (simp add: demo_pred_config_def)
  have f: "demo_feed_dict 0 ''fp_score'' = demo_feed_dict (pi / 2) ''fp_score''"
    "demo_feed_dict 0 ''rms'' = demo_feed_dict (pi / 2) ''rms''"
    by (simp_all add: demo_feed_fp)
  note t = Cl_head_never_used [where fw = demo_fw and cfg = "demo_pred_config [''Cl'']"
      and enc = demo_encoder and ?m0.0 = ?M and a = "PyInt 10" and ?m1.0 = ?M and b = "PyInt 99"
      and graph_dict = demo_graph_dict and feed_dict = "demo_feed_dict (pi / 2)"
      and return_subloss = True and v = demo_views and v' = demo_views
      and feed_dict' = "demo_feed_dict 0" and m = ?M and m' = "demo_model [''Cm''] (replicate 8 0)"]
  from t i a c have h: "\<exists>h. Cl ?M = Some h \<and> Cl_vocab h = PyInt 10"
    by auto
  from t i' have v: "\<exists>m2. GeoPredModel_init demo_fw
        ((demo_pred_config [''Cl''])(''Cl_vocab'' \<mapsto> PyInt 99)) demo_encoder = Inr m2 \<and>
      forward demo_fw m2 demo_graph_dict (demo_feed_dict (pi / 2)) True =
        forward demo_fw ?M demo_graph_dict (demo_feed_dict (pi / 2)) True"
    by blast
  from t f have s: "Cl_sub_loss demo_fw (demo_model [''Cm''] (replicate 8 0)) (demo_feed_dict 0)
      demo_views = Cl_sub_loss demo_fw ?M (demo_feed_dict (pi / 2)) demo_views"
    by blast
  show ?thesis using i a h v s by blast
qed

section \<open>Removing a task\<close>

text \<open>
  Claim C5, as stated, fails: the coefficient of a task is the one at its position among
  the active tasks, so removing a task moves every later task to the coefficient one
  position earlier. With the tasks Cm and Fg and the coefficients \<open>0\<close> and \<open>1\<close>, removing Cm
  changes the weighted term of Fg, and the total loss changes by a value other than the
  weighted term of Cm.
\<close>

theorem task_removal_shifts_counterexample:
  "forward demo_fw (demo_model [''Cm'', ''Fg''] demo_coefs) demo_graph_dict
      (demo_feed_dict (pi / 2)) True =
     Inr (LossSubCoefs (weighted_term 0 10 + weighted_term 1 10)
            [(''Cm_loss'', 10), (''Fg_loss'', 10)] demo_coefs) \<and>
   forward demo_fw (demo_model [''Fg''] demo_coefs) demo_graph_dict
      (demo_feed_dict (pi / 2)) True =
     Inr (LossSubCoefs (weighted_term 0 10) [(''Fg_loss'', 10)] demo_coefs) \<and>
   heads_agree_except ''Cm'' (demo_model [''Cm'', ''Fg''] demo_coefs)
     (demo_model [''Fg''] demo_coefs) \<and>
   demo_coefs ! 0 = 0 \<and> demo_coefs ! 1 = 1 \<and>
   weighted_term 1 10 \<noteq> weighted_term 0 10 \<and>
   (weighted_term 0 10 + weighted_term 1 10) - weighted_term 0 10 \<noteq> weighted_term 0 10"
  using demo_forward_Cm_Fg demo_forward_Fg_coefs demo_agree_Cm [of demo_coefs] weighted_term_1_less
  by (simp add: demo_coefs_def)

text \<open>
  Claim C5, amended. With identical inputs, encoder, heads and coefficients, removing one
  task from \<open>pretrain_tasks\<close> removes that task's entry from \<open>sub_losses\<close> and leaves every
  other sub-loss unchanged; the total loss is the weighted sum of the remaining sub-losses
  by their new positions. The weighted terms of the tasks before the removed one are
  unchanged, each task after it keeps its sub-loss and is weighted with the coefficient one
  position earlier, and the total changes by exactly the removed task's weighted term when
  the removed task is the last active one.
\<close>

theorem task_removal:
  assumes run: "forward fw m graph_dict feed_dict True = Inr (LossSubCoefs loss sub_losses cs)"
    and T: "pretrain_tasks m = PyStrs T" and T': "pretrain_tasks m' = PyStrs T'"
    and rem: "set T' = set T - {t}"
    and agree: "heads_agree_except t m m'"
  shows "\<exists>loss'.
    forward fw m' graph_dict feed_dict True =
      Inr (LossSubCoefs loss' (AList.delete (t @ ''_loss'') sub_losses) cs) \<and>
    loss' = (\<Sum>i<length (AList.delete (t @ ''_loss'') sub_losses).
               weighted_term (cs ! i) (snd (AList.delete (t @ ''_loss'') sub_losses ! i))) \<and>
    (\<forall>j<length sub_losses. fst (sub_losses ! j) = t @ ''_loss'' \<longrightarrow>
       AList.delete (t @ ''_loss'') sub_losses = take j sub_losses @ drop (Suc j) sub_losses \<and>
       (\<forall>i<j. weighted_term (cs ! i) (snd (AList.delete (t @ ''_loss'') sub_losses ! i)) =
                weighted_term (cs ! i) (snd (sub_losses ! i))) \<and>
       (\<forall>i. j \<le> i \<and> Suc i < length sub_losses \<longrightarrow>
          weighted_term (cs ! i) (snd (AList.delete (t @ ''_loss'') sub_losses ! i)) =
            weighted_term (cs ! i) (snd (sub_losses ! Suc i))) \<and>
       (Suc j = length sub_losses \<longrightarrow> loss - loss' = weighted_term (cs ! j) (snd (sub_losses ! j))))"
proof -
  let ?k = "t @ ''_loss''"
  let ?d = "AList.delete ?k sub_losses"
  let ?loss' = "\<Sum>i<length ?d. weighted_term (cs ! i) (snd (?d ! i))"
  from run obtain v calls where
    ev: "encode_views fw m graph_dict = Inr (v, calls)" and
    cm: "compute_sub_losses fw m feed_dict v = Inr sub_losses" and
    cb: "combine (coefs m) sub_losses (map fst sub_losses) 0 0 = Inr loss" and
    c: "cs = coefs m"
    unfolding forward_True_iff by blast
  have dist: "distinct (map fst sub_losses)"
    using cm entries_distinct [OF task_tags_distinct] by (simp add: compute_sub_losses_iff)
  from combine_Inr_length [OF dist cb] have len: "length sub_losses \<le> length cs"
    and loss: "loss = (\<Sum>i<length sub_losses. weighted_term (cs ! i) (snd (sub_losses ! i)))"
    by (simp_all add: c)
  have enc: "compound_encoder m' = compound_encoder m" and cf: "coefs m' = coefs m"
    using agree by (simp_all add: heads_agree_except_def)
  have ev': "encode_views fw m' graph_dict = Inr (v, calls)"
    using encode_views_cong [OF enc] ev by simp
  have cm': "compute_sub_losses fw m' feed_dict v = Inr ?d"
    by (rule removal_compute [OF cm T T' rem agree])
  have "length ?d \<le> length sub_losses"
    by (simp add: AList.delete_eq)
  then have len': "length ?d \<le> length (coefs m')"
    using len by (simp add: cf c)
  have fw': "forward fw m' graph_dict feed_dict True = Inr (LossSubCoefs ?loss' ?d cs)"
    using forward_TrueI [OF ev' cm' len'] by (simp add: cf c)
  have pos: "?d = take j sub_losses @ drop (Suc j) sub_losses \<and>
       (\<forall>i<j. weighted_term (cs ! i) (snd (?d ! i)) = weighted_term (cs ! i) (snd (sub_losses ! i))) \<and>
       (\<forall>i. j \<le> i \<and> Suc i < length sub_losses \<longrightarrow>
          weighted_term (cs ! i) (snd (?d ! i)) = weighted_term (cs ! i) (snd (sub_losses ! Suc i))) \<and>
       (Suc j = length sub_losses \<longrightarrow> loss - ?loss' = weighted_term (cs ! j) (snd (sub_losses ! j)))"
    if j: "j < length sub_losses" and k: "fst (sub_losses ! j) = ?k" for j
  proof -
    have d: "?d = take j sub_losses @ drop (Suc j) sub_losses"
      by (rule delete_nth [OF dist j k])
    have before: "?d ! i = sub_losses ! i" if "i < j" for i
      using that j by (simp add: d nth_append)
    have after: "?d ! i = sub_losses ! Suc i" if "j \<le> i" "Suc i < length sub_losses" for i
      using that j by (simp add: d nth_append)
    have last: "loss - ?loss' = weighted_term (cs ! j) (snd (sub_losses ! j))"
      if e: "Suc j = length sub_losses"
    proof -
      have dl: "length ?d = j" using e by (simp add: d)
      have "?loss' = (\<Sum>i<j. weighted_term (cs ! i) (snd (sub_losses ! i)))"
        unfolding dl by (rule sum.cong) (simp_all add: before)
      moreover have "loss = (\<Sum>i<Suc j. weighted_term (cs ! i) (snd (sub_losses ! i)))"
        using loss e by simp
      ultimately show ?thesis by simp
    qed
    show ?thesis using d before after last by simp
  qed
  show ?thesis
    using fw' pos by blast
qed

theorem task_removal_witness:
  "forward demo_fw (demo_model [''Cm'', ''Fg''] demo_coefs) demo_graph_dict
      (demo_feed_dict (pi / 2)) True =
     Inr (LossSubCoefs (weighted_term 0 10 + weighted_term 1 10)
            [(''Cm_loss'', 10), (''Fg_loss'', 10)] demo_coefs) \<and>
   pretrain_tasks (demo_model [''Cm'', ''Fg''] demo_coefs) = PyStrs [''Cm'', ''Fg''] \<and>
   pretrain_tasks (demo_model [''Cm''] demo_coefs) = PyStrs [''Cm''] \<and>
   set [''Cm''] = set [''Cm'', ''Fg''] - {''Fg''} \<and>
   heads_agree_except ''Fg'' (demo_model [''Cm'', ''Fg''] demo_coefs)
     (demo_model [''Cm''] demo_coefs) \<and>
   (\<exists>loss'. forward demo_fw (demo_model [''Cm''] demo_coefs) demo_graph_dict
       (demo_feed_dict (pi / 2)) True = Inr (LossSubCoefs loss' [(''Cm_loss'', 10)] demo_coefs) \<and>
      (weighted_term 0 10 + weighted_term 1 10) - loss' = weighted_term 1 10)"
proof -
  have T: "pretrain_tasks (demo_model [''Cm'', ''Fg''] demo_coefs) = PyStrs [''Cm'', ''Fg'']"
    and T': "pretrain_tasks (demo_model [''Cm''] demo_coefs) = PyStrs [''Cm'']"
    by (simp_all add: demo_model_sel)
  have rem: "set [''Cm''] = set [''Cm'', ''Fg''] - {''Fg''}"
    by auto
  from task_removal [OF demo_forward_Cm_Fg T T' rem demo_agree_Fg]
  obtain loss' where
    f: "forward demo_fw (demo_model [''Cm''] demo_coefs) demo_graph_dict
       (demo_feed_dict (pi / 2)) True =
        Inr (LossSubCoefs loss'
          (AList.delete (''Fg'' @ ''_loss'') [(''Cm_loss'', 10), (''Fg_loss'', 10)]) demo_coefs)"
    and p: "\<forall>j<length [(''Cm_loss'', 10 :: real), (''Fg_loss'', 10)].
       fst ([(''Cm_loss'', 10 :: real), (''Fg_loss'', 10)] ! j) = ''Fg'' @ ''_loss'' \<longrightarrow>
       (Suc j = length [(''Cm_loss'', 10 :: real), (''Fg_loss'', 10)] \<longrightarrow>
          (weighted_term 0 10 + weighted_term 1 10) - loss' =
            weighted_term (demo_coefs ! j) (snd ([(''Cm_loss'', 10), (''Fg_loss'', 10)] ! j)))"
    by blast
  from p [rule_format, of 1]
  have d: "(weighted_term 0 10 + weighted_term 1 10) - loss' = weighted_term 1 10"
    by (simp add: demo_coefs_def)
  from f have f': "forward demo_fw (demo_model [''Cm''] demo_coefs) demo_graph_dict
       (demo_feed_dict (pi / 2)) True = Inr (LossSubCoefs loss' [(''Cm_loss'', 10)] demo_coefs)"
    by simp
  show ?thesis
    using demo_forward_Cm_Fg T T' rem demo_agree_Fg f' d by blast
qed

end
